theory Spec2Isabelle
  imports Main "HOL-Library.AList"
begin

section \<open>Text formatting\<close>

text \<open>
  The generator emits assembly lines as Python strings built with f-strings. A line is a
  \<open>string\<close>; \<open>TAB\<close> is the character \<open>\t\<close> and \<open>QUOTE\<close> the single quote.
\<close>

definition TAB :: string where
  "TAB = [CHR 0x09]"

definition QUOTE :: string where
  "QUOTE = [CHR 0x27]"

text \<open>Python's \<open>str(n)\<close> for a non-negative integer: the decimal digits, no leading zero.\<close>

fun str_nat :: "nat \<Rightarrow> string" where
  "str_nat n = (if n < 10 then [''0123456789'' ! n]
                else str_nat (n div 10) @ [''0123456789'' ! (n mod 10)])"

declare str_nat.simps [simp del]

text \<open>Python's \<open>str(i)\<close> for any integer.\<close>

definition str_int :: "int \<Rightarrow> string" where
  "str_int i = (if i < 0 then ''-'' @ str_nat (nat (- i)) else str_nat (nat i))"

text \<open>\<open>','.join(parts)\<close>.\<close>

fun join_comma :: "string list \<Rightarrow> string" where
  "join_comma [] = []"
| "join_comma [x] = x"
| "join_comma (x # y # ys) = x @ '','' @ join_comma (y # ys)"

text \<open>\<open>c.isspace()\<close> on the characters an assembly fragment can hold.\<close>

definition isspace :: "char \<Rightarrow> bool" where
  "isspace ch = (ch \<in> set [CHR 0x20, CHR 0x09, CHR 0x0A, CHR 0x0B, CHR 0x0C, CHR 0x0D,
                            CHR 0x1C, CHR 0x1D, CHR 0x1E, CHR 0x1F, CHR 0x85, CHR 0xA0])"

text \<open>\<open>name.upper()\<close> on ASCII letters.\<close>

definition upper_char :: "char \<Rightarrow> char" where
  "upper_char ch =
     (case map_of (zip ''abcdefghijklmnopqrstuvwxyz'' ''ABCDEFGHIJKLMNOPQRSTUVWXYZ'') ch of
        None \<Rightarrow> ch | Some u \<Rightarrow> u)"

definition upper :: "string \<Rightarrow> string" where
  "upper name = map upper_char name"

section \<open>Types and the abstract syntax tree\<close>

text \<open>
  Modelled from the spec: the type universe of \<open>types.py\<close> (integer types of a byte width,
  pointers with a referent type, arrays with an element type and an element count, records
  identified by name, interfaces). The generator only tests the class of a type and reads
  \<open>ArrayType.element\<close>, \<open>ArrayType.size\<close>, \<open>PtrType.target\<close> and \<open>RecordType.name\<close>;
  every size comes from the checker.
\<close>

datatype cow_type =
    IntType int bool
  | PtrType cow_type
  | ArrayType cow_type int
  | RecordType string
  | InterfaceType

text \<open>Modelled from the spec: \<open>UINT16\<close>, the unsigned two-byte integer type.\<close>

definition UINT16 :: cow_type where
  "UINT16 = IntType 2 False"

text \<open>The syntax of a type in the source program, resolved by the checker only.\<close>

type_synonym type_name = string

text \<open>
  Expressions. Every node carries its \<open>resolved_type\<close> attribute (\<open>None\<close> when the checker
  left it unset) as last field. \<open>OtherExpr\<close> stands for any expression class the generator
  has no branch for; it holds the class name.
\<close>

datatype expr =
    NumberLiteral int "cow_type option"
  | StringLiteral string "cow_type option"
  | NilLiteral "cow_type option"
  | Identifier string "cow_type option"
  | BinaryOp string expr expr "cow_type option"
  | UnaryOp string expr "cow_type option"
  | Comparison string expr expr "cow_type option"
  | LogicalOp string expr expr "cow_type option"
  | NotOp expr "cow_type option"
  | Cast expr "cow_type option"
  | ArrayAccess expr expr "cow_type option"
  | FieldAccess expr string "cow_type option"
  | Dereference expr "cow_type option"
  | AddressOf expr "cow_type option"
  | Call expr "expr list" "cow_type option"
  | SizeOf "expr + type_name" "cow_type option"
  | BytesOf "expr + type_name" "cow_type option"
  | Next expr "cow_type option"
  | Prev expr "cow_type option"
  | ArrayInitializer "expr list" "cow_type option"
  | OtherExpr string "cow_type option"

fun resolved_type :: "expr \<Rightarrow> cow_type option" where
  "resolved_type (NumberLiteral _ rt) = rt"
| "resolved_type (StringLiteral _ rt) = rt"
| "resolved_type (NilLiteral rt) = rt"
| "resolved_type (Identifier _ rt) = rt"
| "resolved_type (BinaryOp _ _ _ rt) = rt"
| "resolved_type (UnaryOp _ _ rt) = rt"
| "resolved_type (Comparison _ _ _ rt) = rt"
| "resolved_type (LogicalOp _ _ _ rt) = rt"
| "resolved_type (NotOp _ rt) = rt"
| "resolved_type (Cast _ rt) = rt"
| "resolved_type (ArrayAccess _ _ rt) = rt"
| "resolved_type (FieldAccess _ _ rt) = rt"
| "resolved_type (Dereference _ rt) = rt"
| "resolved_type (AddressOf _ rt) = rt"
| "resolved_type (Call _ _ rt) = rt"
| "resolved_type (SizeOf _ rt) = rt"
| "resolved_type (BytesOf _ rt) = rt"
| "resolved_type (Next _ rt) = rt"
| "resolved_type (Prev _ rt) = rt"
| "resolved_type (ArrayInitializer _ rt) = rt"
| "resolved_type (OtherExpr _ rt) = rt"

text \<open>A part of an inline assembly statement: a literal string or an expression.\<close>

datatype asm_part = AsmText string | AsmExpr expr

text \<open>A parameter or return declaration of a subroutine: name and type syntax.\<close>

record param_decl =
  param_name :: string
  param_type :: type_name

text \<open>
  Statements and subroutine declarations. \<open>ReturnStmt\<close>, \<open>BreakStmt\<close> and
  \<open>ContinueStmt\<close> carry nothing the generator reads. \<open>OtherStmt\<close> stands for any
  statement class without a branch in \<open>gen_stmt\<close>. A subroutine declaration is
  \<open>Sub name params returns body extern_name\<close>; a forward declaration has body \<open>None\<close>.
\<close>

datatype stmt =
    VarDecl string "type_name option" "expr option" "cow_type option"
  | ConstDecl
  | Assignment expr expr
  | MultiAssignment "expr list" expr
  | IfStmt expr "stmt list" "(expr \<times> stmt list) list" "stmt list option"
  | WhileStmt expr "stmt list"
  | LoopStmt "stmt list"
  | BreakStmt
  | ContinueStmt
  | ReturnStmt
  | CaseStmt expr "(expr list \<times> stmt list) list" "stmt list option"
  | ExprStmt expr
  | AsmStmt "asm_part list"
  | NestedSubStmt sub_decl
  | SubDecl sub_decl
  | RecordDecl
  | TypedefDecl
  | OtherStmt
and sub_decl =
    Sub string "param_decl list" "param_decl list" "stmt list option" "string option"

text \<open>A top-level declaration of the program: a subroutine or anything else.\<close>

datatype decl = DeclSub sub_decl | DeclOther

record program =
  statements :: "stmt list"
  declarations :: "decl list"

section \<open>The checker, as the generator reads it\<close>

text \<open>
  The type checker (\<open>types.py\<close>) is a collaborator; the generator calls
  \<open>type_size\<close> and \<open>resolve_type\<close>, reads the dictionaries \<open>constants\<close>, \<open>subroutines\<close>
  and \<open>records\<close>, and asks the current scope for a variable (\<open>lookup_var\<close> gives the
  type of the variable found, or \<open>None\<close>). These are parameters of the model.
\<close>

record record_field_info =
  field_name :: string
  field_type :: "cow_type option"
  field_offset :: int

record subroutine_info =
  sub_params :: "(string \<times> cow_type option) list"
  sub_returns :: "(string \<times> cow_type option) list"

record checker =
  type_size :: "cow_type option \<Rightarrow> int"
  resolve_type :: "type_name \<Rightarrow> cow_type option"
  constants :: "string \<rightharpoonup> int"
  subroutines :: "string \<rightharpoonup> subroutine_info"
  records :: "string \<rightharpoonup> record_field_info list"
  lookup_var :: "string \<rightharpoonup> cow_type option"

section \<open>Generator state and the emitter\<close>

record variable =
  var_name :: string
  var_type :: "cow_type option"
  var_offset :: int
  var_size :: int

text \<open>
  The fields of \<open>CodeGenerator\<close> (\<open>output_lines\<close> and \<open>data_lines\<close> are its \<open>output\<close>
  and \<open>data\<close> lists). The two dictionaries are association lists in insertion
  order, as Python dictionaries iterate; \<open>nested_subs\<close> is the attribute that
  \<open>gen_stmt\<close> creates on first use (absent and empty behave alike).
\<close>

record generator =
  output_lines :: "string list"
  data_lines :: "string list"
  variables :: "(string \<times> variable) list"
  string_literals :: "(string \<times> string) list"
  data_offset :: int
  label_counter :: nat
  current_sub :: "string option"
  break_labels :: "string list"
  continue_labels :: "string list"
  nested_subs :: "sub_decl list"

definition init_generator :: generator where
  "init_generator = \<lparr> output_lines = [], data_lines = [], variables = [], string_literals = [],
     data_offset = 0, label_counter = 0, current_sub = None, break_labels = [],
     continue_labels = [], nested_subs = [] \<rparr>"

definition emit :: "string \<Rightarrow> generator \<Rightarrow> generator" where
  "emit line s = s\<lparr>output_lines := output_lines s @ [line]\<rparr>"

definition emit_label :: "string \<Rightarrow> generator \<Rightarrow> generator" where
  "emit_label label s = s\<lparr>output_lines := output_lines s @ [label @ '':'']\<rparr>"

definition emit_data :: "string \<Rightarrow> generator \<Rightarrow> generator" where
  "emit_data line s = s\<lparr>data_lines := data_lines s @ [line]\<rparr>"

definition new_label :: "string \<Rightarrow> generator \<Rightarrow> string \<times> generator" where
  "new_label prefix s =
     (let s = s\<lparr>label_counter := label_counter s + 1\<rparr>
      in (prefix @ str_nat (label_counter s), s))"

definition allocate_var :: "checker \<Rightarrow> string \<Rightarrow> cow_type option \<Rightarrow> generator \<Rightarrow> variable \<times> generator" where
  "allocate_var c name typ s =
     (let size = type_size c typ;
          var = \<lparr> var_name = name, var_type = typ, var_offset = data_offset s, var_size = size \<rparr>;
          s = s\<lparr>variables := AList.update name var (variables s)\<rparr>;
          s = s\<lparr>data_offset := data_offset s + size\<rparr>
      in (var, s))"

definition get_string_label :: "string \<Rightarrow> generator \<Rightarrow> string \<times> generator" where
  "get_string_label v s =
     (case map_of (string_literals s) v of
        None \<Rightarrow>
          (let (label, s) = new_label ''STR'' s
           in (label, s\<lparr>string_literals := AList.update v label (string_literals s)\<rparr>))
      | Some label \<Rightarrow> (label, s))"

definition mangle_name :: "string \<Rightarrow> string" where
  "mangle_name name = ''v_'' @ name"

definition mangle_sub_name :: "string \<Rightarrow> string" where
  "mangle_sub_name name =
     (if upper name \<in> set [''A'', ''B'', ''C'', ''D'', ''E'', ''H'', ''L'', ''M'', ''SP'', ''PSW'']
      then ''s_'' @ name else name)"

text \<open>An instruction line without and with an operand field: \<open>\tOP\<close> and \<open>\tOP\targs\<close>.\<close>

definition ins0 :: "string \<Rightarrow> string" where
  "ins0 opc = TAB @ opc"

definition ins :: "string \<Rightarrow> string \<Rightarrow> string" where
  "ins opc args = TAB @ opc @ TAB @ args"

text \<open>The comment emitted for an expression class without a branch: \<open>\t; TODO: kind\<close>.\<close>

definition todo_line :: "string \<Rightarrow> string" where
  "todo_line kind = TAB @ ''; TODO: '' @ kind"

text \<open>The comment line that opens a subroutine: \<open>; Subroutine name\<close>.\<close>

definition sub_comment :: "string \<Rightarrow> string" where
  "sub_comment name = ''; Subroutine '' @ name"

text \<open>The registers a value can be requested in: the \<open>target\<close> strings \<open>'A'\<close> and \<open>'HL'\<close>.\<close>

datatype target = A | HL

definition emits :: "string list \<Rightarrow> generator \<Rightarrow> generator" where
  "emits lines s = foldl (\<lambda>s line. emit line s) s lines"

text \<open>\<open>isinstance(e, ast.Identifier)\<close>, with the name when it holds.\<close>

fun identifier_name :: "expr \<Rightarrow> string option" where
  "identifier_name (Identifier name _) = Some name"
| "identifier_name _ = None"

section \<open>Lowering of expressions\<close>

text \<open>
  \<open>gen_expr\<close> and the methods it calls and that call it back. Each method of the class
  is a function from the generator before the call to the generator after it; a method
  that the source calls with one kind of node only matches on that kind. Consecutive
  \<open>self.emit\<close> calls are written as one \<open>emits\<close>.
\<close>

function (sequential)
    gen_expr :: "checker \<Rightarrow> expr \<Rightarrow> target \<Rightarrow> generator \<Rightarrow> generator"
and gen_binop :: "checker \<Rightarrow> expr \<Rightarrow> target \<Rightarrow> generator \<Rightarrow> generator"
and gen_comparison :: "checker \<Rightarrow> expr \<Rightarrow> generator \<Rightarrow> generator"
and gen_logical :: "checker \<Rightarrow> expr \<Rightarrow> generator \<Rightarrow> generator"
and gen_array_access :: "checker \<Rightarrow> expr \<Rightarrow> target \<Rightarrow> generator \<Rightarrow> generator"
and gen_array_address :: "checker \<Rightarrow> expr \<Rightarrow> generator \<Rightarrow> generator"
and gen_field_access :: "checker \<Rightarrow> expr \<Rightarrow> target \<Rightarrow> generator \<Rightarrow> generator"
and gen_field_address :: "checker \<Rightarrow> expr \<Rightarrow> generator \<Rightarrow> generator"
and gen_call :: "checker \<Rightarrow> expr \<Rightarrow> target \<Rightarrow> generator \<Rightarrow> generator"
where
  "gen_expr c (NumberLiteral v rt) target s =
     (if target = A then emit (ins ''MVI'' (''A,'' @ str_int (v mod 256))) s
      else emit (ins ''LXI'' (''H,'' @ str_int (v mod 65536))) s)"
| "gen_expr c (StringLiteral v rt) target s =
     (let (label, s) = get_string_label v s
      in emit (ins ''LXI'' (''H,'' @ label)) s)"
| "gen_expr c (NilLiteral rt) target s =
     (if target = A then emit (ins ''XRA'' ''A'') s
      else emit (ins ''LXI'' ''H,0'') s)"
| "gen_expr c (Identifier name rt) target s =
     (case map_of (variables s) name of
        Some var \<Rightarrow>
          (let mangled = mangle_name name
           in if var_size var = 1
              then (let s = emit (ins ''LDA'' mangled) s
                    in if target = HL
                       then emits [ins ''MOV'' ''L,A'', ins ''MVI'' ''H,0''] s
                       else s)
              else (let s = emit (ins ''LHLD'' mangled) s
                    in if target = A then emit (ins ''MOV'' ''A,L'') s else s))
      | None \<Rightarrow>
          (case constants c name of
             Some v \<Rightarrow>
               (if target = A then emit (ins ''MVI'' (''A,'' @ str_int (v mod 256))) s
                else emit (ins ''LXI'' (''H,'' @ str_int (v mod 65536))) s)
           | None \<Rightarrow>
               (if subroutines c name \<noteq> None
                then emit (ins ''LXI'' (''H,'' @ mangle_sub_name name)) s
                else emit (ins ''LXI'' (''H,'' @ name)) s)))"
| "gen_expr c (BinaryOp op l r rt) target s = gen_binop c (BinaryOp op l r rt) target s"
| "gen_expr c (UnaryOp op operand rt) target s =
     (if op = ''-''
      then (let s = gen_expr c operand target s
            in if target = A
               then emits [ins0 ''CMA'', ins ''INR'' ''A''] s
               else emits [ins ''MOV'' ''A,L'', ins0 ''CMA'', ins ''MOV'' ''L,A'',
                           ins ''MOV'' ''A,H'', ins0 ''CMA'', ins ''MOV'' ''H,A'',
                           ins ''INX'' ''H''] s)
      else if op = ''~''
      then (let s = gen_expr c operand target s
            in if target = A
               then emit (ins0 ''CMA'') s
               else emits [ins ''MOV'' ''A,L'', ins0 ''CMA'', ins ''MOV'' ''L,A'',
                           ins ''MOV'' ''A,H'', ins0 ''CMA'', ins ''MOV'' ''H,A''] s)
      else s)"
| "gen_expr c (Comparison op l r rt) target s =
     (let s = gen_comparison c (Comparison op l r rt) s
      in if target = HL then emits [ins ''MOV'' ''L,A'', ins ''MVI'' ''H,0''] s else s)"
| "gen_expr c (LogicalOp op l r rt) target s =
     (let s = gen_logical c (LogicalOp op l r rt) s
      in if target = HL then emits [ins ''MOV'' ''L,A'', ins ''MVI'' ''H,0''] s else s)"
| "gen_expr c (NotOp operand rt) target s =
     (let s = gen_expr c operand A s;
          s = emits [ins ''ORA'' ''A'', ins ''MVI'' ''A,0'', ins ''JNZ'' ''$+4'',
                     ins ''MVI'' ''A,1''] s
      in if target = HL then emits [ins ''MOV'' ''L,A'', ins ''MVI'' ''H,0''] s else s)"
| "gen_expr c (Cast e rt) target s = gen_expr c e target s"
| "gen_expr c (ArrayAccess arr idx rt) target s =
     gen_array_access c (ArrayAccess arr idx rt) target s"
| "gen_expr c (FieldAccess rcd fld rt) target s =
     gen_field_access c (FieldAccess rcd fld rt) target s"
| "gen_expr c (Dereference pointer rt) target s =
     (let s = gen_expr c pointer HL s
      in if type_size c rt = 1
         then (let s = emit (ins ''MOV'' ''A,M'') s
               in if target = HL
                  then emits [ins ''MOV'' ''L,A'', ins ''MVI'' ''H,0''] s
                  else s)
         else emits [ins ''MOV'' ''E,M'', ins ''INX'' ''H'', ins ''MOV'' ''D,M'',
                     ins0 ''XCHG''] s)"
| "gen_expr c (AddressOf operand rt) target s =
     (case operand of
        Identifier name _ \<Rightarrow>
          (case map_of (variables s) name of
             Some var \<Rightarrow> emit (ins ''LXI'' (''H,'' @ mangle_name name)) s
           | None \<Rightarrow> s)
      | FieldAccess _ _ _ \<Rightarrow> gen_field_address c operand s
      | ArrayAccess _ _ _ \<Rightarrow> gen_array_address c operand s
      | _ \<Rightarrow> s)"
| "gen_expr c (Call tgt args rt) target s = gen_call c (Call tgt args rt) target s"
| "gen_expr c (SizeOf tgt rt) target s =
     (case tgt of
        Inl e \<Rightarrow>
          (case resolved_type e of
             Some (ArrayType _ n) \<Rightarrow>
               (if target = A then emit (ins ''MVI'' (''A,'' @ str_int (n mod 256))) s
                else emit (ins ''LXI'' (''H,'' @ str_int n)) s)
           | _ \<Rightarrow> s)
      | Inr _ \<Rightarrow> s)"
| "gen_expr c (BytesOf tgt rt) target s =
     (let size = (case tgt of
                    Inl e \<Rightarrow> type_size c (resolved_type e)
                  | Inr tn \<Rightarrow> type_size c (resolve_type c tn))
      in if target = A then emit (ins ''MVI'' (''A,'' @ str_int (size mod 256))) s
         else emit (ins ''LXI'' (''H,'' @ str_int size)) s)"
| "gen_expr c (Next pointer rt) target s =
     (let s = gen_expr c pointer HL s
      in case rt of
           Some (PtrType t) \<Rightarrow>
             (let size = type_size c (Some t)
              in if size = 1 then emit (ins ''INX'' ''H'') s
                 else emits [ins ''LXI'' (''D,'' @ str_int size), ins ''DAD'' ''D''] s)
         | _ \<Rightarrow> s)"
| "gen_expr c (Prev pointer rt) target s =
     (let s = gen_expr c pointer HL s
      in case rt of
           Some (PtrType t) \<Rightarrow>
             (let size = type_size c (Some t)
              in if size = 1 then emit (ins ''DCX'' ''H'') s
                 else emits [ins ''LXI'' (''D,-'' @ str_int size), ins ''DAD'' ''D''] s)
         | _ \<Rightarrow> s)"
| "gen_expr c (ArrayInitializer elements rt) target s = s"
| "gen_expr c (OtherExpr kind rt) target s = emit (todo_line kind) s"

| "gen_binop c e target s =
     (case e of
        BinaryOp op l r rt \<Rightarrow>
          (if type_size c rt = 1
           then (let s = gen_expr c l A s;
                     s = emit (ins ''PUSH'' ''PSW'') s;
                     s = gen_expr c r A s;
                     s = emits [ins ''MOV'' ''B,A'', ins ''POP'' ''PSW''] s;
                     s = (if op = ''+'' then emit (ins ''ADD'' ''B'') s
                          else if op = ''-'' then emit (ins ''SUB'' ''B'') s
                          else if op = ''&'' then emit (ins ''ANA'' ''B'') s
                          else if op = ''|'' then emit (ins ''ORA'' ''B'') s
                          else if op = ''^'' then emit (ins ''XRA'' ''B'') s
                          else if op = ''*'' then emit (ins ''CALL'' ''_mul8'') s
                          else if op = ''/'' then emit (ins ''CALL'' ''_div8'') s
                          else if op = ''%'' then emit (ins ''CALL'' ''_mod8'') s
                          else if op = ''<<''
                          then (let (label, s) = new_label ''SHL'' s;
                                    (end, s) = new_label ''SHLE'' s;
                                    s = emit_label label s;
                                    s = emits [ins ''MOV'' ''C,A'', ins ''MOV'' ''A,B'',
                                               ins ''ORA'' ''A'', ins ''JZ'' end,
                                               ins ''DCR'' ''B'', ins ''MOV'' ''A,C'',
                                               ins ''ADD'' ''A'', ins ''JMP'' label] s
                                in emit_label end s)
                          else if op = ''>>''
                          then (let (label, s) = new_label ''SHR'' s;
                                    (end, s) = new_label ''SHRE'' s;
                                    s = emit_label label s;
                                    s = emits [ins ''MOV'' ''C,A'', ins ''MOV'' ''A,B'',
                                               ins ''ORA'' ''A'', ins ''JZ'' end,
                                               ins ''DCR'' ''B'', ins ''MOV'' ''A,C'',
                                               ins ''ORA'' ''A'', ins0 ''RAR'',
                                               ins ''JMP'' label] s
                                in emit_label end s)
                          else s)
                 in if target = HL
                    then emits [ins ''MOV'' ''L,A'', ins ''MVI'' ''H,0''] s
                    else s)
           else (let s = gen_expr c l HL s;
                     s = emit (ins ''PUSH'' ''H'') s;
                     s = gen_expr c r HL s;
                     s = emits [ins0 ''XCHG'', ins ''POP'' ''H''] s;
                     s = (if op = ''+'' then emit (ins ''DAD'' ''D'') s
                          else if op = ''-''
                          then emits [ins ''MOV'' ''A,L'', ins ''SUB'' ''E'', ins ''MOV'' ''L,A'',
                                      ins ''MOV'' ''A,H'', ins ''SBB'' ''D'', ins ''MOV'' ''H,A''] s
                          else if op = ''&''
                          then emits [ins ''MOV'' ''A,L'', ins ''ANA'' ''E'', ins ''MOV'' ''L,A'',
                                      ins ''MOV'' ''A,H'', ins ''ANA'' ''D'', ins ''MOV'' ''H,A''] s
                          else if op = ''|''
                          then emits [ins ''MOV'' ''A,L'', ins ''ORA'' ''E'', ins ''MOV'' ''L,A'',
                                      ins ''MOV'' ''A,H'', ins ''ORA'' ''D'', ins ''MOV'' ''H,A''] s
                          else if op = ''^''
                          then emits [ins ''MOV'' ''A,L'', ins ''XRA'' ''E'', ins ''MOV'' ''L,A'',
                                      ins ''MOV'' ''A,H'', ins ''XRA'' ''D'', ins ''MOV'' ''H,A''] s
                          else if op = ''*'' then emit (ins ''CALL'' ''_mul16'') s
                          else if op = ''/'' then emit (ins ''CALL'' ''_div16'') s
                          else if op = ''%'' then emit (ins ''CALL'' ''_mod16'') s
                          else if op = ''<<'' then emit (ins ''CALL'' ''_shl16'') s
                          else if op = ''>>'' then emit (ins ''CALL'' ''_shr16'') s
                          else s)
                 in if target = A then emit (ins ''MOV'' ''A,L'') s else s))
      | _ \<Rightarrow> s)"

| "gen_comparison c e s =
     (case e of
        Comparison op l r rt \<Rightarrow>
          (let s = gen_expr c l HL s;
               s = emit (ins ''PUSH'' ''H'') s;
               s = gen_expr c r HL s;
               s = emits [ins0 ''XCHG'', ins ''POP'' ''H''] s;
               s = emits [ins ''MOV'' ''A,H'', ins ''CMP'' ''D'', ins ''JNZ'' ''$+6'',
                          ins ''MOV'' ''A,L'', ins ''CMP'' ''E''] s;
               (true_label, s) = new_label ''TRUE'' s;
               (end_label, s) = new_label ''END'' s;
               (false_label, s) = new_label ''FALSE'' s;
               s = (if op = ''=='' then emit (ins ''JZ'' true_label) s
                    else if op = ''!='' then emit (ins ''JNZ'' true_label) s
                    else if op = ''<'' then emit (ins ''JC'' true_label) s
                    else if op = ''>='' then emit (ins ''JNC'' true_label) s
                    else if op = ''>''
                    then emits [ins ''JZ'' false_label, ins ''JNC'' true_label] s
                    else if op = ''<=''
                    then emits [ins ''JZ'' true_label, ins ''JC'' true_label] s
                    else s);
               s = emit_label false_label s;
               s = emits [ins ''XRA'' ''A'', ins ''JMP'' end_label] s;
               s = emit_label true_label s;
               s = emit (ins ''MVI'' ''A,1'') s
           in emit_label end_label s)
      | _ \<Rightarrow> s)"

| "gen_logical c e s =
     (case e of
        LogicalOp op l r rt \<Rightarrow>
          (if op = ''and''
           then (let (false_label, s) = new_label ''FALSE'' s;
                     (end_label, s) = new_label ''END'' s;
                     s = gen_expr c l A s;
                     s = emits [ins ''ORA'' ''A'', ins ''JZ'' false_label] s;
                     s = gen_expr c r A s;
                     s = emits [ins ''ORA'' ''A'', ins ''JZ'' false_label] s;
                     s = emits [ins ''MVI'' ''A,1'', ins ''JMP'' end_label] s;
                     s = emit_label false_label s;
                     s = emit (ins ''XRA'' ''A'') s
                 in emit_label end_label s)
           else if op = ''or''
           then (let (true_label, s) = new_label ''TRUE'' s;
                     (end_label, s) = new_label ''END'' s;
                     s = gen_expr c l A s;
                     s = emits [ins ''ORA'' ''A'', ins ''JNZ'' true_label] s;
                     s = gen_expr c r A s;
                     s = emits [ins ''ORA'' ''A'', ins ''JNZ'' true_label] s;
                     s = emits [ins ''XRA'' ''A'', ins ''JMP'' end_label] s;
                     s = emit_label true_label s;
                     s = emit (ins ''MVI'' ''A,1'') s
                 in emit_label end_label s)
           else s)
      | _ \<Rightarrow> s)"

| "gen_array_access c e target s =
     (case e of
        ArrayAccess arr idx rt \<Rightarrow>
          (let s = gen_array_address c e s
           in if type_size c rt = 1
              then (let s = emit (ins ''MOV'' ''A,M'') s
                    in if target = HL
                       then emits [ins ''MOV'' ''L,A'', ins ''MVI'' ''H,0''] s
                       else s)
              else (let s = emits [ins ''MOV'' ''E,M'', ins ''INX'' ''H'', ins ''MOV'' ''D,M'',
                                   ins0 ''XCHG''] s
                    in if target = A then emit (ins ''MOV'' ''A,L'') s else s))
      | _ \<Rightarrow> s)"

| "gen_array_address c e s =
     (case e of
        ArrayAccess arr idx rt \<Rightarrow>
          (let elem_size = (case resolved_type arr of
                              Some (ArrayType element _) \<Rightarrow> type_size c (Some element)
                            | Some (PtrType t) \<Rightarrow> type_size c (Some t)
                            | _ \<Rightarrow> 1);
               s = gen_expr c idx HL s;
               s = (if elem_size > 1
                    then emits [ins ''LXI'' (''D,'' @ str_int elem_size),
                                ins ''CALL'' ''_mul16''] s
                    else s);
               s = emit (ins ''PUSH'' ''H'') s;
               s = (case identifier_name arr of
                      Some name \<Rightarrow>
                        (case map_of (variables s) name of
                           Some var \<Rightarrow> emit (ins ''LXI'' (''H,'' @ mangle_name name)) s
                         | None \<Rightarrow> emit (ins ''LXI'' (''H,'' @ name)) s)
                    | None \<Rightarrow> gen_expr c arr HL s)
           in emits [ins ''POP'' ''D'', ins ''DAD'' ''D''] s)
      | _ \<Rightarrow> s)"

| "gen_field_access c e target s =
     (case e of
        FieldAccess rcd fld rt \<Rightarrow>
          (let s = gen_field_address c e s
           in if type_size c rt = 1
              then (let s = emit (ins ''MOV'' ''A,M'') s
                    in if target = HL
                       then emits [ins ''MOV'' ''L,A'', ins ''MVI'' ''H,0''] s
                       else s)
              else (let s = emits [ins ''MOV'' ''E,M'', ins ''INX'' ''H'', ins ''MOV'' ''D,M'',
                                   ins0 ''XCHG''] s
                    in if target = A then emit (ins ''MOV'' ''A,L'') s else s))
      | _ \<Rightarrow> s)"

| "gen_field_address c e s =
     (case e of
        FieldAccess rcd fld rt \<Rightarrow>
          (let record_type = resolved_type rcd;
               (record_type, s) =
                  (case record_type of
                     Some (PtrType t) \<Rightarrow> (Some t, gen_expr c rcd HL s)
                   | _ \<Rightarrow>
                       (record_type,
                        (case identifier_name rcd of
                           Some name \<Rightarrow>
                             (case map_of (variables s) name of
                                Some var \<Rightarrow> emit (ins ''LXI'' (''H,'' @ mangle_name name)) s
                              | None \<Rightarrow> emit (ins ''LXI'' (''H,'' @ name)) s)
                         | None \<Rightarrow> gen_expr c rcd HL s)))
           in case record_type of
                Some (RecordType rname) \<Rightarrow>
                  (case records c rname of
                     Some info_fields \<Rightarrow>
                       (case find (\<lambda>f. field_name f = fld) info_fields of
                          Some f \<Rightarrow>
                            (if field_offset f > 0
                             then emits [ins ''LXI'' (''D,'' @ str_int (field_offset f)),
                                         ins ''DAD'' ''D''] s
                             else s)
                        | None \<Rightarrow> s)
                   | None \<Rightarrow> s)
              | _ \<Rightarrow> s)
      | _ \<Rightarrow> s)"

| "gen_call c e target s =
     (case e of
        Call tgt args rt \<Rightarrow>
          (let s = foldl (\<lambda>s arg. emit (ins ''PUSH'' ''H'') (gen_expr c arg HL s)) s (rev args);
               s = (case identifier_name tgt of
                      Some name \<Rightarrow>
                        (if subroutines c name \<noteq> None
                         then emit (ins ''CALL'' (mangle_sub_name name)) s
                         else (let s = (case map_of (variables s) name of
                                          Some var \<Rightarrow> emit (ins ''LHLD'' (mangle_name name)) s
                                        | None \<Rightarrow> emit (ins ''LXI'' (''H,'' @ name)) s)
                               in emit (ins ''CALL'' ''_callhl'') s))
                    | None \<Rightarrow>
                        (let s = gen_expr c tgt HL s
                         in emit (ins ''CALL'' ''_callhl'') s));
               s = (if args \<noteq> []
                    then (let stack_bytes = int (length args) * 2
                          in if stack_bytes = 2 then emit (ins ''POP'' ''D'') s
                             else if stack_bytes = 4
                             then emits [ins ''POP'' ''D'', ins ''POP'' ''D''] s
                             else emits [ins ''PUSH'' ''H'',
                                         ins ''LXI'' (''H,'' @ str_int (stack_bytes + 2)),
                                         ins ''DAD'' ''SP'', ins0 ''SPHL'', ins ''POP'' ''H''] s)
                    else s)
           in if target = A \<and> rt \<noteq> None
              then (if type_size c rt > 1 then emit (ins ''MOV'' ''A,L'') s else s)
              else s)
      | _ \<Rightarrow> s)"
  by pat_completeness auto

termination
  by size_change

section \<open>Evaluation on concrete inputs\<close>

lemma str_nat_0 [simp]: "str_nat 0 = ''0''"
  by (simp add: str_nat.simps)

lemma str_nat_1 [simp]: "str_nat 1 = ''1''"
  by (simp add: str_nat.simps)

lemma str_nat_Suc_0 [simp]: "str_nat (Suc 0) = ''1''"
  by (simp add: str_nat.simps)

lemma str_nat_numeral [simp]:
  "str_nat (numeral k) =
     (if numeral k < (10::nat) then [''0123456789'' ! numeral k]
      else str_nat (numeral k div 10) @ [''0123456789'' ! (numeral k mod 10)])"
  by (rule str_nat.simps)

lemma emits_Nil [simp]: "emits [] s = s"
  by (simp add: emits_def)

lemma emits_Cons [simp]: "emits (l # ls) s = emits ls (emit l s)"
  by (simp add: emits_def)

text \<open>
  A checker for the examples: every type is two bytes wide except \<open>IntType 1\<close>, and the
  only known subroutine is \<open>f\<close>, without parameters or returns.
\<close>

definition sample_checker :: checker where
  "sample_checker =
     \<lparr> type_size = (\<lambda>t. case t of Some (IntType n _) \<Rightarrow> n | _ \<Rightarrow> 2),
       resolve_type = (\<lambda>n. if n = ''uint8'' then Some (IntType 1 False) else Some UINT16),
       constants = Map.empty,
       subroutines = [''f'' \<mapsto> \<lparr> sub_params = [], sub_returns = [] \<rparr>],
       records = Map.empty,
       lookup_var = Map.empty \<rparr>"

section \<open>What a lowering can do to the generator\<close>

text \<open>
  The prefixes that the source passes to \<open>new_label\<close>.
\<close>

definition label_prefixes :: "string list" where
  "label_prefixes = [''STR'', ''SHL'', ''SHLE'', ''SHR'', ''SHRE'', ''TRUE'', ''END'', ''FALSE'',
     ''ELSE'', ''ENDIF'', ''ELIF'', ''WHILE'', ''ENDW'', ''LOOP'', ''ENDL'', ''ENDC'', ''WHEN'']"

definition gen_line :: "(string \<Rightarrow> bool) \<Rightarrow> string \<Rightarrow> bool" where
  "gen_line U l \<longleftrightarrow>
     (\<exists>opc args. l = ins opc args) \<or>
     (\<exists>opc \<in> set [''CMA'', ''XCHG'', ''RAR'', ''SPHL'', ''RET'']. l = ins0 opc) \<or>
     (\<exists>p \<in> set label_prefixes. \<exists>n. l = p @ str_nat n @ '':'') \<or>
     (\<exists>k. l = todo_line k) \<or>
     l = [] \<or>
     (\<exists>n. l = sub_comment n) \<or>
     U l"

inductive esteps :: "(string \<Rightarrow> bool) \<Rightarrow> (string \<Rightarrow> bool) \<Rightarrow> checker \<Rightarrow> generator \<Rightarrow> generator \<Rightarrow> bool"
  for U :: "string \<Rightarrow> bool" and N :: "string \<Rightarrow> bool" and c :: checker
where
  base: "esteps U N c s s"
| emit: "esteps U N c s s' \<Longrightarrow> gen_line U l \<Longrightarrow> esteps U N c s (emit l s')"
| label: "esteps U N c s s' \<Longrightarrow> p \<in> set label_prefixes \<Longrightarrow> esteps U N c s (snd (new_label p s'))"
| intern: "esteps U N c s s' \<Longrightarrow> esteps U N c s (snd (get_string_label v s'))"
| alloc: "esteps U N c s s' \<Longrightarrow> N name \<or> map_of (variables s') name = None
            \<Longrightarrow> esteps U N c s (snd (allocate_var c name t s'))"
| sub: "esteps U N c s s' \<Longrightarrow> esteps U N c s (s'\<lparr>current_sub := x\<rparr>)"

lemma esteps_emit_label:
  "esteps U N c s s' \<Longrightarrow> gen_line U (l @ '':'') \<Longrightarrow> esteps U N c s (emit_label l s')"
  using esteps.emit [of U N c s s' "l @ '':''"] by (simp add: emit_label_def emit_def)

lemma gen_line_ins [simp]: "gen_line U (ins opc args)"
  unfolding gen_line_def by blast

lemma gen_line_ins0 [simp]:
  "gen_line U (ins0 ''CMA'')" "gen_line U (ins0 ''XCHG'')" "gen_line U (ins0 ''RAR'')"
  "gen_line U (ins0 ''SPHL'')" "gen_line U (ins0 ''RET'')"
  unfolding gen_line_def by simp_all

lemma gen_line_label [simp]:
  "p \<in> set label_prefixes \<Longrightarrow> gen_line U (fst (new_label p s) @ '':'')"
  unfolding gen_line_def new_label_def Let_def by auto

lemma gen_line_todo [simp]: "gen_line U (todo_line k)"
  unfolding gen_line_def by blast

lemma esteps_simps [simp]:
  "esteps U N c s s' \<Longrightarrow> gen_line U l \<Longrightarrow> esteps U N c s (emit l s')"
  "esteps U N c s s' \<Longrightarrow> p \<in> set label_prefixes \<Longrightarrow> esteps U N c s (snd (new_label p s'))"
  "esteps U N c s s' \<Longrightarrow> esteps U N c s (snd (get_string_label v s'))"
  "esteps U N c s s' \<Longrightarrow> gen_line U (l @ '':'') \<Longrightarrow> esteps U N c s (emit_label l s')"
  by (auto intro: esteps.intros esteps_emit_label)

lemma foldl_esteps:
  assumes "\<And>x s. x \<in> set xs \<Longrightarrow> esteps U N c s0 s \<Longrightarrow> esteps U N c s0 (f s x)"
  shows "esteps U N c s0 s \<Longrightarrow> esteps U N c s0 (foldl f s xs)"
  using assms by (induction xs arbitrary: s) auto

lemma gen_expr_esteps_aux:
  "(\<forall>t s0 s. esteps U N c s0 s \<longrightarrow> esteps U N c s0 (gen_expr c e t s)) \<and>
   (\<forall>s0 s. esteps U N c s0 s \<longrightarrow> esteps U N c s0 (gen_array_address c e s)) \<and>
   (\<forall>s0 s. esteps U N c s0 s \<longrightarrow> esteps U N c s0 (gen_field_address c e s))"
proof (induction e)
  case (NumberLiteral v rt)
  then show ?case by simp
next
  case (StringLiteral v rt)
  then show ?case by (simp add: split_beta)
next
  case (NilLiteral rt)
  then show ?case by simp
next
  case (Identifier name rt)
  then show ?case by (simp add: Let_def split: option.splits)
next
  case (BinaryOp op l r rt)
  then show ?case by (simp add: Let_def split_beta label_prefixes_def)
next
  case (UnaryOp op e rt)
  then show ?case by (simp add: Let_def)
next
  case (Comparison op l r rt)
  then show ?case by (simp add: Let_def split_beta label_prefixes_def)
next
  case (LogicalOp op l r rt)
  then show ?case by (simp add: Let_def split_beta label_prefixes_def)
next
  case (NotOp e rt)
  then show ?case by (simp add: Let_def)
next
  case (Cast e rt)
  then show ?case by simp
next
  case (ArrayAccess arr idx rt)
  then show ?case by (simp add: Let_def split: option.splits)
next
  case (FieldAccess rcd fld rt)
  then show ?case by (simp add: Let_def split_beta split: option.splits cow_type.splits)
next
  case (Dereference e rt)
  then show ?case by (simp add: Let_def)
next
  case (AddressOf e rt)
  then show ?case by (cases e) (simp_all add: Let_def split: option.splits)
next
  case (Call tgt args rt)
  have "esteps U N c s0 (foldl (\<lambda>s arg. emit (ins ''PUSH'' ''H'') (gen_expr c arg HL s)) s (rev args))"
    if "esteps U N c s0 s" for s0 s
    using that Call by (intro foldl_esteps) auto
  then show ?case using Call(1) by (simp add: Let_def split: option.splits)
next
  case (SizeOf tgt rt)
  then show ?case by (simp split: sum.splits option.splits cow_type.splits)
next
  case (BytesOf tgt rt)
  then show ?case by (simp add: Let_def)
next
  case (Next e rt)
  then show ?case by (simp add: Let_def split: option.splits cow_type.splits)
next
  case (Prev e rt)
  then show ?case by (simp add: Let_def split: option.splits cow_type.splits)
next
  case (ArrayInitializer es rt)
  then show ?case by simp
next
  case (OtherExpr k rt)
  then show ?case by simp
qed


lemma gen_expr_esteps [simp]:
  "esteps U N c s0 s \<Longrightarrow> esteps U N c s0 (gen_expr c e t s)"
  "esteps U N c s0 s \<Longrightarrow> esteps U N c s0 (gen_array_address c e s)"
  "esteps U N c s0 s \<Longrightarrow> esteps U N c s0 (gen_field_address c e s)"
  using gen_expr_esteps_aux [of U N c e] by blast+

declare gen_binop.simps [simp del] gen_comparison.simps [simp del] gen_logical.simps [simp del]
  gen_array_access.simps [simp del] gen_array_address.simps [simp del]
  gen_field_access.simps [simp del] gen_field_address.simps [simp del] gen_call.simps [simp del]

lemmas gen_expr_helper_simps = gen_binop.simps gen_comparison.simps gen_logical.simps
  gen_array_access.simps gen_array_address.simps gen_field_access.simps
  gen_field_address.simps gen_call.simps

lemma esteps_alloc [simp]:
  "esteps U N c s s' \<Longrightarrow> N name \<or> map_of (variables s') name = None
     \<Longrightarrow> esteps U N c s (snd (allocate_var c name t s'))"
  by (rule esteps.alloc)

lemma esteps_sub [simp]:
  "esteps U N c s s' \<Longrightarrow> esteps U N c s (s'\<lparr>current_sub := x\<rparr>)"
  by (rule esteps.sub)

lemma gen_line_empty [simp]: "gen_line U []"
  by (simp add: gen_line_def)

lemma gen_line_sub_comment [simp]: "gen_line U (sub_comment n)"
  unfolding gen_line_def by blast

lemma gen_line_user [simp]: "U l \<Longrightarrow> gen_line U l"
  by (simp add: gen_line_def)

lemma esteps_nested_subs: "esteps U N c s s' \<Longrightarrow> nested_subs s' = nested_subs s"
  by (induction rule: esteps.induct)
     (auto simp: emit_def new_label_def get_string_label_def allocate_var_def Let_def
           split: option.splits)

lemma foldl_pair_esteps:
  assumes "\<And>x a s. x \<in> set xs \<Longrightarrow> esteps U N c s0 s \<Longrightarrow> esteps U N c s0 (snd (f (a, s) x))"
  shows "esteps U N c s0 s \<Longrightarrow> esteps U N c s0 (snd (foldl f (a, s) xs))"
  using assms
proof (induction xs arbitrary: a s)
  case Nil
  then show ?case by simp
next
  case (Cons x xs)
  obtain a' s' where f: "f (a, s) x = (a', s')" by (cases "f (a, s) x")
  have "esteps U N c s0 s'" using Cons.prems(1) Cons.prems(2) [of x s a] f by simp
  then show ?case using Cons.IH [of s' a'] Cons.prems(2) f by simp
qed
lemma gen_helpers_esteps [simp]:
  "esteps U N c s0 s \<Longrightarrow> esteps U N c s0 (gen_binop c e t s)"
  "esteps U N c s0 s \<Longrightarrow> esteps U N c s0 (gen_comparison c e s)"
  "esteps U N c s0 s \<Longrightarrow> esteps U N c s0 (gen_logical c e s)"
  "esteps U N c s0 s \<Longrightarrow> esteps U N c s0 (gen_array_access c e t s)"
  "esteps U N c s0 s \<Longrightarrow> esteps U N c s0 (gen_field_access c e t s)"
  "esteps U N c s0 s \<Longrightarrow> esteps U N c s0 (gen_call c e t s)"
proof -
  assume a: "esteps U N c s0 s"
  show "esteps U N c s0 (gen_binop c e t s)"
  proof (cases e)
    case (BinaryOp op l r rt)
    show ?thesis using gen_expr_esteps(1) [OF a, of "BinaryOp op l r rt" t] BinaryOp by simp
  qed (simp_all add: gen_binop.simps a)
  show "esteps U N c s0 (gen_comparison c e s)"
  proof (cases e)
    case (Comparison op l r rt)
    show ?thesis using gen_expr_esteps(1) [OF a, of "Comparison op l r rt" A] Comparison by simp
  qed (simp_all add: gen_comparison.simps a)
  show "esteps U N c s0 (gen_logical c e s)"
  proof (cases e)
    case (LogicalOp op l r rt)
    show ?thesis using gen_expr_esteps(1) [OF a, of "LogicalOp op l r rt" A] LogicalOp by simp
  qed (simp_all add: gen_logical.simps a)
  show "esteps U N c s0 (gen_array_access c e t s)"
  proof (cases e)
    case (ArrayAccess arr idx rt)
    show ?thesis using gen_expr_esteps(1) [OF a, of "ArrayAccess arr idx rt" t] ArrayAccess by simp
  qed (simp_all add: gen_array_access.simps a)
  show "esteps U N c s0 (gen_field_access c e t s)"
  proof (cases e)
    case (FieldAccess rcd fld rt)
    show ?thesis using gen_expr_esteps(1) [OF a, of "FieldAccess rcd fld rt" t] FieldAccess by simp
  qed (simp_all add: gen_field_access.simps a)
  show "esteps U N c s0 (gen_call c e t s)"
  proof (cases e)
    case (Call tgt args rt)
    show ?thesis using gen_expr_esteps(1) [OF a, of "Call tgt args rt" t] Call by simp
  qed (simp_all add: gen_call.simps a)
qed


declare gen_expr.simps [simp del]

lemmas gen_expr_eval = gen_expr.simps gen_expr_helper_simps

section \<open>Lowering of statements\<close>

text \<open>Python truthiness of an optional list (\<open>else_body\<close>) and of an optional string.\<close>

fun nonempty :: "'a list option \<Rightarrow> bool" where
  "nonempty None = False"
| "nonempty (Some xs) = (xs \<noteq> [])"

definition gen_array_init :: "checker \<Rightarrow> variable \<Rightarrow> expr list \<Rightarrow> generator \<Rightarrow> generator" where
  "gen_array_init c var elements s =
     (let elem_size = (case var_type var of
                         Some (ArrayType element _) \<Rightarrow> type_size c (Some element)
                       | _ \<Rightarrow> 1);
          mangled = mangle_name (var_name var)
      in snd (foldl (\<lambda>(offset, s) elem.
                 (let s = gen_expr c elem HL s;
                      s = (if elem_size = 1
                           then emits [ins ''MOV'' ''A,L'',
                                       ins ''STA'' (mangled @ ''+'' @ str_int offset)] s
                           else emit (ins ''SHLD'' (mangled @ ''+'' @ str_int offset)) s)
                  in (offset + elem_size, s)))
               (0, s) elements))"

text \<open>The type \<open>gen_var_decl\<close> gives a declared variable: the resolved type of the
  statement, else the declared type resolved by the checker, else the resolved type of the
  initialiser, else \<open>UINT16\<close>.\<close>

definition var_decl_type ::
  "checker \<Rightarrow> type_name option \<Rightarrow> expr option \<Rightarrow> cow_type option \<Rightarrow> cow_type option" where
  "var_decl_type c type_name init rt =
     (let var_type =
            (if rt \<noteq> None then rt
             else (case type_name of
                     Some tn \<Rightarrow> resolve_type c tn
                   | None \<Rightarrow>
                       (case init of
                          Some i \<Rightarrow> resolved_type i
                        | None \<Rightarrow> None)))
      in if var_type = None then Some UINT16 else var_type)"

definition gen_var_decl :: "checker \<Rightarrow> stmt \<Rightarrow> generator \<Rightarrow> generator" where
  "gen_var_decl c stmt s =
     (case stmt of
        VarDecl name type_name init rt \<Rightarrow>
          (let var_type = var_decl_type c type_name init rt
           in case map_of (variables s) name of
                Some var \<Rightarrow> s
              | None \<Rightarrow>
                  (let (var, s) = allocate_var c name var_type s
                   in case init of
                        None \<Rightarrow> s
                      | Some i \<Rightarrow>
                          (let mangled = mangle_name name
                           in case i of
                                ArrayInitializer elements _ \<Rightarrow> gen_array_init c var elements s
                              | StringLiteral v _ \<Rightarrow>
                                  (let (label, s) = get_string_label v s
                                   in emits [ins ''LXI'' (''H,'' @ label),
                                             ins ''SHLD'' mangled] s)
                              | _ \<Rightarrow>
                                  (let s = gen_expr c i HL s
                                   in if var_size var = 1
                                      then emits [ins ''MOV'' ''A,L'', ins ''STA'' mangled] s
                                      else emit (ins ''SHLD'' mangled) s))))
      | _ \<Rightarrow> s)"

text \<open>The store through the address in \<open>DE\<close> that ends three branches of \<open>gen_assignment\<close>.\<close>

definition store_at_width :: "checker \<Rightarrow> cow_type option \<Rightarrow> generator \<Rightarrow> generator" where
  "store_at_width c typ s =
     (if type_size c typ = 1
      then emits [ins ''MOV'' ''A,L'', ins ''STAX'' ''D''] s
      else emits [ins0 ''XCHG'', ins ''MOV'' ''M,E'', ins ''INX'' ''H'', ins ''MOV'' ''M,D''] s)"

definition gen_assignment :: "checker \<Rightarrow> stmt \<Rightarrow> generator \<Rightarrow> generator" where
  "gen_assignment c stmt s =
     (case stmt of
        Assignment tgt v \<Rightarrow>
          (let s = gen_expr c v HL s
           in case tgt of
                Identifier name _ \<Rightarrow>
                  (case map_of (variables s) name of
                     Some var \<Rightarrow>
                       (let mangled = mangle_name name
                        in if var_size var = 1
                           then emits [ins ''MOV'' ''A,L'', ins ''STA'' mangled] s
                           else emit (ins ''SHLD'' mangled) s)
                   | None \<Rightarrow> s)
              | ArrayAccess _ _ rt \<Rightarrow>
                  (let s = emit (ins ''PUSH'' ''H'') s;
                       s = gen_array_address c tgt s;
                       s = emits [ins0 ''XCHG'', ins ''POP'' ''H''] s
                   in store_at_width c rt s)
              | FieldAccess _ _ rt \<Rightarrow>
                  (let s = emit (ins ''PUSH'' ''H'') s;
                       s = gen_field_address c tgt s;
                       s = emits [ins0 ''XCHG'', ins ''POP'' ''H''] s
                   in store_at_width c rt s)
              | Dereference pointer rt \<Rightarrow>
                  (let s = emit (ins ''PUSH'' ''H'') s;
                       s = gen_expr c pointer HL s;
                       s = emits [ins0 ''XCHG'', ins ''POP'' ''H''] s
                   in store_at_width c rt s)
              | _ \<Rightarrow> s)
      | _ \<Rightarrow> s)"

definition gen_multi_assignment :: "checker \<Rightarrow> stmt \<Rightarrow> generator \<Rightarrow> generator" where
  "gen_multi_assignment c stmt s =
     (case stmt of
        MultiAssignment targets v \<Rightarrow>
          (let s = gen_expr c v HL s
           in snd (foldl (\<lambda>(i, s) tgt.
                      (let s = (if i = (0::nat) then s else emit (ins ''POP'' ''H'') s);
                           s = (case tgt of
                                  Identifier name _ \<Rightarrow>
                                    (let var = map_of (variables s) name;
                                         mangled = mangle_name name
                                     in if (case var of Some v \<Rightarrow> var_size v = 1 | None \<Rightarrow> False)
                                        then emits [ins ''MOV'' ''A,L'', ins ''STA'' mangled] s
                                        else emit (ins ''SHLD'' mangled) s)
                                | _ \<Rightarrow> s)
                       in (i + 1, s)))
                    (0, s) targets))
      | _ \<Rightarrow> s)"

text \<open>The text an inline assembly part stands for.\<close>

definition asm_part_text :: "checker \<Rightarrow> asm_part \<Rightarrow> string" where
  "asm_part_text c part =
     (case part of
        AsmText t \<Rightarrow> t
      | AsmExpr e \<Rightarrow>
          (case identifier_name e of
             Some name \<Rightarrow>
               (case constants c name of
                  Some v \<Rightarrow> str_int v
                | None \<Rightarrow>
                    (if subroutines c name \<noteq> None then mangle_sub_name name
                     else mangle_name name))
           | None \<Rightarrow> ''???''))"

text \<open>The loop of \<open>gen_asm\<close> that joins the parts, a tab between two parts that meet
  without white space.\<close>

definition asm_join :: "string list \<Rightarrow> string" where
  "asm_join parts =
     foldl (\<lambda>asm_line part.
        (if asm_line \<noteq> [] \<and> part \<noteq> [] \<and> \<not> isspace (hd part) \<and> \<not> isspace (last asm_line)
         then asm_line @ TAB else asm_line) @ part) [] parts"

definition gen_asm :: "checker \<Rightarrow> stmt \<Rightarrow> generator \<Rightarrow> generator" where
  "gen_asm c stmt s =
     (case stmt of
        AsmStmt parts \<Rightarrow> emit (TAB @ asm_join (map (asm_part_text c) parts)) s
      | _ \<Rightarrow> s)"

text \<open>The comparison of the scrutinee with the values of one arm of a case statement.\<close>

definition gen_case_values :: "checker \<Rightarrow> expr list \<Rightarrow> string \<Rightarrow> generator \<Rightarrow> generator" where
  "gen_case_values c vals next_when s =
     foldl (\<lambda>s val.
        (let s = emits [ins ''POP'' ''H'', ins ''PUSH'' ''H''] s;
             s = gen_expr c val HL s;
             s = emits [ins0 ''XCHG'', ins ''POP'' ''H'', ins ''PUSH'' ''H''] s
         in emits [ins ''MOV'' ''A,H'', ins ''CMP'' ''D'', ins ''JNZ'' next_when,
                   ins ''MOV'' ''A,L'', ins ''CMP'' ''E'', ins ''JNZ'' next_when] s))
       s vals"

text \<open>The parameters and returns of a declaration, from the checker when it knows the
  subroutine and from the declaration otherwise.\<close>

definition sub_signature ::
  "checker \<Rightarrow> sub_decl \<Rightarrow> (string \<times> cow_type option) list \<times> (string \<times> cow_type option) list" where
  "sub_signature c decl =
     (case decl of
        Sub name ps rs body extern_name \<Rightarrow>
          (case subroutines c name of
             Some sub_info \<Rightarrow> (sub_params sub_info, sub_returns sub_info)
           | None \<Rightarrow>
               (map (\<lambda>p. (param_name p, resolve_type c (param_type p))) ps,
                map (\<lambda>r. (param_name r, resolve_type c (param_type r))) rs)))"

text \<open>The part of \<open>gen_sub\<close> before the body: entry labels, allocation of parameters and
  returns, and the copy of the parameters from the stack.\<close>

definition gen_sub_prologue :: "checker \<Rightarrow> sub_decl \<Rightarrow> generator \<Rightarrow> generator" where
  "gen_sub_prologue c decl s =
     (case decl of
        Sub name ps rs body extern_name \<Rightarrow>
          (let s = s\<lparr>current_sub := Some name\<rparr>;
               (params, returns) = sub_signature c decl;
               s = emits ['''', sub_comment name] s;
               s = (case extern_name of
                      None \<Rightarrow> s
                    | Some x \<Rightarrow>
                        (if x \<noteq> [] then emit_label x (emit (ins ''PUBLIC'' x) s) else s));
               s = emit_label (mangle_sub_name name) s;
               s = foldl (\<lambda>s (param_name, param_type). snd (allocate_var c param_name param_type s))
                     s params;
               s = foldl (\<lambda>s (ret_name, ret_type). snd (allocate_var c ret_name ret_type s))
                     s returns
           in snd (foldl (\<lambda>(offset, s) (param_name, param_type).
                      (case map_of (variables s) param_name of
                         Some var \<Rightarrow>
                           (let mangled = mangle_name param_name;
                                s = emits [ins ''LXI'' (''H,'' @ str_int offset),
                                           ins ''DAD'' ''SP''] s;
                                s = (if var_size var = 1
                                     then emits [ins ''MOV'' ''A,M'', ins ''STA'' mangled] s
                                     else emits [ins ''MOV'' ''E,M'', ins ''INX'' ''H'',
                                                 ins ''MOV'' ''D,M'', ins0 ''XCHG'',
                                                 ins ''SHLD'' mangled] s)
                            in (offset + 2, s))
                       | None \<Rightarrow> (offset, s)))
                    (2, s) params)))"

text \<open>The part of \<open>gen_sub\<close> after the body: the first return value into \<open>HL\<close>, and \<open>RET\<close>.\<close>

definition gen_sub_epilogue :: "checker \<Rightarrow> sub_decl \<Rightarrow> generator \<Rightarrow> generator" where
  "gen_sub_epilogue c decl s =
     (let (params, returns) = sub_signature c decl;
          s = (case returns of
                 [] \<Rightarrow> s
               | (ret_var, _) # _ \<Rightarrow>
                   (let var = map_of (variables s) ret_var;
                        mangled_ret = mangle_name ret_var
                    in if (case var of Some v \<Rightarrow> var_size v = 1 | None \<Rightarrow> False)
                       then emits [ins ''LDA'' mangled_ret, ins ''MOV'' ''L,A'',
                                   ins ''MVI'' ''H,0''] s
                       else emit (ins ''LHLD'' mangled_ret) s))
      in emit (ins0 ''RET'') s)"

lemma gen_array_init_esteps [simp]:
  "esteps U N c s0 s \<Longrightarrow> esteps U N c s0 (gen_array_init c var elements s)"
  unfolding gen_array_init_def Let_def
  by (rule foldl_pair_esteps) (simp_all add: Let_def)

lemma gen_var_decl_esteps [simp]:
  "esteps U N c s0 s \<Longrightarrow> esteps U N c s0 (gen_var_decl c st s)"
  by (cases st) (simp_all add: gen_var_decl_def Let_def split_beta split: option.splits expr.splits)

lemma store_at_width_esteps [simp]:
  "esteps U N c s0 s \<Longrightarrow> esteps U N c s0 (store_at_width c typ s)"
  by (simp add: store_at_width_def)

lemma gen_assignment_esteps [simp]:
  "esteps U N c s0 s \<Longrightarrow> esteps U N c s0 (gen_assignment c st s)"
  by (cases st) (simp_all add: gen_assignment_def Let_def split: option.splits expr.splits)

lemma gen_multi_assignment_esteps [simp]:
  assumes "esteps U N c s0 s"
  shows "esteps U N c s0 (gen_multi_assignment c st s)"
proof (cases st)
  case (MultiAssignment targets v)
  have "esteps U N c s0 (gen_expr c v HL s)" using assms by simp
  then show ?thesis
    unfolding MultiAssignment gen_multi_assignment_def Let_def
    by (simp, intro foldl_pair_esteps)
       (simp_all add: Let_def split_beta split: option.splits expr.splits)
qed (simp_all add: gen_multi_assignment_def assms)

lemma gen_case_values_esteps [simp]:
  "esteps U N c s0 s \<Longrightarrow> esteps U N c s0 (gen_case_values c vals next_when s)"
  unfolding gen_case_values_def
  by (rule foldl_esteps) (simp_all add: Let_def)

lemma gen_sub_epilogue_esteps [simp]:
  "esteps U N c s0 s \<Longrightarrow> esteps U N c s0 (gen_sub_epilogue c decl s)"
  by (simp add: gen_sub_epilogue_def Let_def split_beta split: list.splits option.splits)

lemma gen_asm_esteps:
  "esteps U N c s0 s \<Longrightarrow> U (TAB @ asm_join (map (asm_part_text c) parts))
     \<Longrightarrow> esteps U N c s0 (gen_asm c (AsmStmt parts) s)"
  by (simp add: gen_asm_def)

definition sub_head_ok :: "(string \<Rightarrow> bool) \<Rightarrow> (string \<Rightarrow> bool) \<Rightarrow> checker \<Rightarrow> sub_decl \<Rightarrow> bool" where
  "sub_head_ok U N c decl =
     (case decl of
        Sub name ps rs body extern_name \<Rightarrow>
          U (mangle_sub_name name @ '':'') \<and>
          (case extern_name of None \<Rightarrow> True | Some x \<Rightarrow> x = [] \<or> U (x @ '':'')) \<and>
          list_all (\<lambda>(n, t). N n) (fst (sub_signature c decl)) \<and>
          list_all (\<lambda>(n, t). N n) (snd (sub_signature c decl)))"

lemma alloc_loop_esteps:
  "esteps U N c s0 s \<Longrightarrow> list_all (\<lambda>(n, t). N n) ps
     \<Longrightarrow> esteps U N c s0 (foldl (\<lambda>s (n, t). snd (allocate_var c n t s)) s ps)"
  by (induction ps arbitrary: s) (auto simp: split_beta)

lemma gen_sub_prologue_esteps:
  assumes "esteps U N c s0 s" and "sub_head_ok U N c decl"
  shows "esteps U N c s0 (gen_sub_prologue c decl s)"
proof (cases decl)
  case (Sub name ps rs body extern_name)
  obtain params returns where sig: "sub_signature c decl = (params, returns)"
    by (cases "sub_signature c decl")
  have ok: "U (mangle_sub_name name @ '':'')"
     "case extern_name of None \<Rightarrow> True | Some x \<Rightarrow> x = [] \<or> U (x @ '':'')"
     "list_all (\<lambda>(n, t). N n) params" "list_all (\<lambda>(n, t). N n) returns"
    using assms(2) sig by (simp_all add: sub_head_ok_def Sub)
  show ?thesis
    unfolding gen_sub_prologue_def Sub
    using sig [unfolded Sub] assms(1) ok
    by (simp add: Let_def, intro foldl_pair_esteps alloc_loop_esteps)
       (auto simp: Let_def split_beta split: option.splits)
qed

definition queue_size :: "generator \<Rightarrow> nat" where
  "queue_size s = size_list size (nested_subs s)"

lemma esteps_queue_size: "esteps U N c s s' \<Longrightarrow> queue_size s' = queue_size s"
  by (simp add: queue_size_def esteps_nested_subs)

lemma queue_size_prims [simp]:
  "queue_size (emit l s) = queue_size s"
  "queue_size (emit_label l s) = queue_size s"
  "queue_size (emits ls s) = queue_size s"
  "queue_size (snd (new_label p s)) = queue_size s"
  "queue_size (s\<lparr>break_labels := b\<rparr>) = queue_size s"
  "queue_size (s\<lparr>continue_labels := b\<rparr>) = queue_size s"
  "queue_size (s\<lparr>current_sub := x\<rparr>) = queue_size s"
  by (induction ls arbitrary: s)
     (simp_all add: queue_size_def emit_def emit_label_def new_label_def Let_def)

lemma queue_size_upd [simp]: "queue_size (s\<lparr>nested_subs := q\<rparr>) = size_list size q"
  by (simp add: queue_size_def)

lemma queue_size_lowerings [simp]:
  "queue_size (gen_expr c e t s) = queue_size s"
  "queue_size (gen_var_decl c st s) = queue_size s"
  "queue_size (gen_assignment c st s) = queue_size s"
  "queue_size (gen_multi_assignment c st s) = queue_size s"
  "queue_size (gen_asm c st s) = queue_size s"
  "queue_size (gen_case_values c vals next_when s) = queue_size s"
  "queue_size (gen_sub_prologue c decl s) = queue_size s"
  "queue_size (gen_sub_epilogue c decl s) = queue_size s"
proof -
  let ?T = "\<lambda>_::string. True"
  have r: "esteps ?T ?T c s s" by (rule esteps.base)
  show "queue_size (gen_expr c e t s) = queue_size s"
    using gen_expr_esteps(1) [OF r] by (rule esteps_queue_size)
  show "queue_size (gen_var_decl c st s) = queue_size s"
    using gen_var_decl_esteps [OF r] by (rule esteps_queue_size)
  show "queue_size (gen_assignment c st s) = queue_size s"
    using gen_assignment_esteps [OF r] by (rule esteps_queue_size)
  show "queue_size (gen_multi_assignment c st s) = queue_size s"
    using gen_multi_assignment_esteps [OF r] by (rule esteps_queue_size)
  show "queue_size (gen_asm c st s) = queue_size s"
    by (cases st) (simp_all add: gen_asm_def)
  show "queue_size (gen_case_values c vals next_when s) = queue_size s"
    using gen_case_values_esteps [OF r] by (rule esteps_queue_size)
  have "sub_head_ok ?T ?T c decl"
    by (cases decl) (simp add: sub_head_ok_def list_all_iff split: option.splits)
  from gen_sub_prologue_esteps [OF r this]
  show "queue_size (gen_sub_prologue c decl s) = queue_size s"
    by (rule esteps_queue_size)
  show "queue_size (gen_sub_epilogue c decl s) = queue_size s"
    using gen_sub_epilogue_esteps [OF r] by (rule esteps_queue_size)
qed
function (sequential)
    gen_stmt :: "checker \<Rightarrow> stmt \<Rightarrow> generator \<Rightarrow> generator"
and gen_stmts :: "checker \<Rightarrow> stmt list \<Rightarrow> generator \<Rightarrow> generator"
and gen_if :: "checker \<Rightarrow> stmt \<Rightarrow> generator \<Rightarrow> generator"
and gen_elseifs :: "checker \<Rightarrow> (expr \<times> stmt list) list \<Rightarrow> bool \<Rightarrow> string \<Rightarrow> string \<Rightarrow> generator
                     \<Rightarrow> string \<times> generator"
and gen_while :: "checker \<Rightarrow> stmt \<Rightarrow> generator \<Rightarrow> generator"
and gen_loop :: "checker \<Rightarrow> stmt \<Rightarrow> generator \<Rightarrow> generator"
and gen_case :: "checker \<Rightarrow> stmt \<Rightarrow> generator \<Rightarrow> generator"
and gen_whens :: "checker \<Rightarrow> (expr list \<times> stmt list) list \<Rightarrow> string \<Rightarrow> generator \<Rightarrow> generator"
and gen_sub :: "checker \<Rightarrow> sub_decl \<Rightarrow> generator \<Rightarrow> generator"
and gen_subs :: "checker \<Rightarrow> sub_decl list \<Rightarrow> generator \<Rightarrow> generator"
where
  "gen_stmt c (VarDecl name type_name init rt) s = gen_var_decl c (VarDecl name type_name init rt) s"
| "gen_stmt c ConstDecl s = s"
| "gen_stmt c (Assignment tgt v) s = gen_assignment c (Assignment tgt v) s"
| "gen_stmt c (MultiAssignment targets v) s = gen_multi_assignment c (MultiAssignment targets v) s"
| "gen_stmt c (IfStmt cond then_body elseifs else_body) s =
     gen_if c (IfStmt cond then_body elseifs else_body) s"
| "gen_stmt c (WhileStmt cond body) s = gen_while c (WhileStmt cond body) s"
| "gen_stmt c (LoopStmt body) s = gen_loop c (LoopStmt body) s"
| "gen_stmt c BreakStmt s =
     (if break_labels s \<noteq> [] then emit (ins ''JMP'' (last (break_labels s))) s else s)"
| "gen_stmt c ContinueStmt s =
     (if continue_labels s \<noteq> [] then emit (ins ''JMP'' (last (continue_labels s))) s else s)"
| "gen_stmt c ReturnStmt s = emit (ins0 ''RET'') s"
| "gen_stmt c (CaseStmt e whens else_body) s = gen_case c (CaseStmt e whens else_body) s"
| "gen_stmt c (ExprStmt e) s = gen_expr c e HL s"
| "gen_stmt c (AsmStmt parts) s = gen_asm c (AsmStmt parts) s"
| "gen_stmt c (NestedSubStmt sub) s = s\<lparr>nested_subs := nested_subs s @ [sub]\<rparr>"
| "gen_stmt c (SubDecl decl) s = gen_sub c decl s"
| "gen_stmt c RecordDecl s = s"
| "gen_stmt c TypedefDecl s = s"
| "gen_stmt c OtherStmt s = s"

| "gen_stmts c [] s = s"
| "gen_stmts c (stmt # rest) s = gen_stmts c rest (gen_stmt c stmt s)"

| "gen_if c stmt s =
     (case stmt of
        IfStmt cond then_body elseifs else_body \<Rightarrow>
          (let (else_label, s) = new_label ''ELSE'' s;
               (end_label, s) = new_label ''ENDIF'' s;
               s = gen_expr c cond A s;
               s = emit (ins ''ORA'' ''A'') s;
               s = (if elseifs \<noteq> [] \<or> nonempty else_body
                    then emit (ins ''JZ'' else_label) s
                    else emit (ins ''JZ'' end_label) s);
               s = gen_stmts c then_body s;
               s = (if elseifs \<noteq> [] \<or> nonempty else_body
                    then emit (ins ''JMP'' end_label) s
                    else s);
               (else_label, s) = gen_elseifs c elseifs (nonempty else_body) end_label else_label s;
               s = (case else_body of
                      None \<Rightarrow> s
                    | Some b \<Rightarrow>
                        (if b \<noteq> [] then gen_stmts c b (emit_label else_label s) else s))
           in emit_label end_label s)
      | _ \<Rightarrow> s)"

| "gen_elseifs c [] has_else end_label else_label s = (else_label, s)"
| "gen_elseifs c ((cond, body) # rest) has_else end_label else_label s =
     (let s = emit_label else_label s;
          (next_label, s) = (if rest \<noteq> [] \<or> has_else then new_label ''ELIF'' s
                             else (end_label, s));
          else_label = next_label;
          s = gen_expr c cond A s;
          s = emits [ins ''ORA'' ''A'', ins ''JZ'' next_label] s;
          s = gen_stmts c body s;
          s = emit (ins ''JMP'' end_label) s
      in gen_elseifs c rest has_else end_label else_label s)"

| "gen_while c stmt s =
     (case stmt of
        WhileStmt cond body \<Rightarrow>
          (let (loop_label, s) = new_label ''WHILE'' s;
               (end_label, s) = new_label ''ENDW'' s;
               s = s\<lparr>break_labels := break_labels s @ [end_label]\<rparr>;
               s = s\<lparr>continue_labels := continue_labels s @ [loop_label]\<rparr>;
               s = emit_label loop_label s;
               s = gen_expr c cond A s;
               s = emits [ins ''ORA'' ''A'', ins ''JZ'' end_label] s;
               s = gen_stmts c body s;
               s = emit (ins ''JMP'' loop_label) s;
               s = emit_label end_label s;
               s = s\<lparr>break_labels := butlast (break_labels s)\<rparr>
           in s\<lparr>continue_labels := butlast (continue_labels s)\<rparr>)
      | _ \<Rightarrow> s)"

| "gen_loop c stmt s =
     (case stmt of
        LoopStmt body \<Rightarrow>
          (let (loop_label, s) = new_label ''LOOP'' s;
               (end_label, s) = new_label ''ENDL'' s;
               s = s\<lparr>break_labels := break_labels s @ [end_label]\<rparr>;
               s = s\<lparr>continue_labels := continue_labels s @ [loop_label]\<rparr>;
               s = emit_label loop_label s;
               s = gen_stmts c body s;
               s = emit (ins ''JMP'' loop_label) s;
               s = emit_label end_label s;
               s = s\<lparr>break_labels := butlast (break_labels s)\<rparr>
           in s\<lparr>continue_labels := butlast (continue_labels s)\<rparr>)
      | _ \<Rightarrow> s)"

| "gen_case c stmt s =
     (case stmt of
        CaseStmt e whens else_body \<Rightarrow>
          (let (end_label, s) = new_label ''ENDC'' s;
               s = gen_expr c e HL s;
               s = emit (ins ''PUSH'' ''H'') s;
               s = gen_whens c whens end_label s;
               s = emit (ins ''POP'' ''H'') s;
               s = (case else_body of
                      None \<Rightarrow> s
                    | Some b \<Rightarrow> gen_stmts c b s)
           in emit_label end_label s)
      | _ \<Rightarrow> s)"

| "gen_whens c [] end_label s = s"
| "gen_whens c ((vals, body) # rest) end_label s =
     (let (next_when, s) = new_label ''WHEN'' s;
          s = gen_case_values c vals next_when s;
          s = emit (ins ''POP'' ''H'') s;
          s = gen_stmts c body s;
          s = emit (ins ''JMP'' end_label) s;
          s = emit_label next_when s
      in gen_whens c rest end_label s)"

| "gen_sub c (Sub name ps rs None extern_name) s = s"
| "gen_sub c (Sub name ps rs (Some body) extern_name) s =
     (let s = gen_sub_prologue c (Sub name ps rs (Some body) extern_name) s;
          s = gen_stmts c body s;
          s = gen_sub_epilogue c (Sub name ps rs (Some body) extern_name) s;
          s = (if nested_subs s \<noteq> []
               then (let nested = nested_subs s;
                         s = s\<lparr>nested_subs := []\<rparr>
                     in gen_subs c nested s)
               else s)
      in s\<lparr>current_sub := None\<rparr>)"

| "gen_subs c [] s = s"
| "gen_subs c (nested_sub # rest) s = gen_subs c rest (gen_sub c nested_sub s)"
  by pat_completeness auto


abbreviation gen_stmt_dom where
  "gen_stmt_dom \<equiv> gen_stmt_gen_stmts_gen_if_gen_elseifs_gen_while_gen_loop_gen_case_gen_whens_gen_sub_gen_subs_dom"

lemmas gen_stmt_psimps = gen_stmt.psimps gen_stmts.psimps gen_if.psimps gen_elseifs.psimps
  gen_while.psimps gen_loop.psimps gen_case.psimps gen_whens.psimps gen_sub.psimps gen_subs.psimps

lemma queue_bound:
  "gen_stmt_dom (Inl (Inl (Inl (c, st, s)))) \<Longrightarrow>
     queue_size (gen_stmt c st s) \<le> queue_size s + size st"
  "gen_stmt_dom (Inl (Inl (Inr (c, sts, s)))) \<Longrightarrow>
     queue_size (gen_stmts c sts s) \<le> queue_size s + size_list size sts"
  "gen_stmt_dom (Inl (Inr (Inl (c, st, s)))) \<Longrightarrow>
     queue_size (gen_if c st s) \<le> queue_size s + size st"
  "gen_stmt_dom (Inl (Inr (Inr (Inl (c, eifs, he, el, ll, s))))) \<Longrightarrow>
     queue_size (snd (gen_elseifs c eifs he el ll s))
       \<le> queue_size s + size_list (size_prod (\<lambda>x. 0) (size_list size)) eifs"
  "gen_stmt_dom (Inl (Inr (Inr (Inr (c, st, s))))) \<Longrightarrow>
     queue_size (gen_while c st s) \<le> queue_size s + size st"
  "gen_stmt_dom (Inr (Inl (Inl (c, st, s)))) \<Longrightarrow>
     queue_size (gen_loop c st s) \<le> queue_size s + size st"
  "gen_stmt_dom (Inr (Inl (Inr (c, st, s)))) \<Longrightarrow>
     queue_size (gen_case c st s) \<le> queue_size s + size st"
  "gen_stmt_dom (Inr (Inr (Inl (c, whens, el, s)))) \<Longrightarrow>
     queue_size (gen_whens c whens el s)
       \<le> queue_size s + size_list (size_prod (\<lambda>x. 0) (size_list size)) whens"
  "gen_stmt_dom (Inr (Inr (Inr (Inl (c, d, s))))) \<Longrightarrow>
     queue_size (gen_sub c d s) \<le> queue_size s"
  "gen_stmt_dom (Inr (Inr (Inr (Inr (c, ds, s))))) \<Longrightarrow>
     queue_size (gen_subs c ds s) \<le> queue_size s"
proof (induct rule: gen_stmt_gen_stmts_gen_if_gen_elseifs_gen_while_gen_loop_gen_case_gen_whens_gen_sub_gen_subs.pinduct)
  case (14 c sub s)
  then show ?case by (simp add: gen_stmt_psimps queue_size_def)
next
  case (21 c stmt s)
  show ?case
  proof (cases stmt)
    case (IfStmt cond tb eifs eb)
    note ih1 = 21(2) [OF IfStmt refl prod.collapse refl prod.collapse refl refl refl]
    note ih2 = 21(3) [OF IfStmt refl prod.collapse refl prod.collapse refl refl refl refl refl]
    note ih3 = 21(4) [OF IfStmt refl prod.collapse refl prod.collapse refl refl refl refl refl
                         refl prod.collapse]
    show ?thesis
    proof (cases eb)
      case None
      then show ?thesis using ih1 ih2
        unfolding gen_if.psimps [OF 21(1)] by (simp add: IfStmt Let_def split_beta split: if_splits)
    next
      case (Some b)
      show ?thesis
      proof (cases "b = []")
        case True
        then show ?thesis using ih1 ih2 Some
          unfolding gen_if.psimps [OF 21(1)] by (simp add: IfStmt Let_def split_beta split: if_splits)
      next
        case False
        then show ?thesis using ih1 ih2 ih3 [OF Some False] Some
          unfolding gen_if.psimps [OF 21(1)] by (simp add: IfStmt Let_def split_beta split: if_splits)
      qed
    qed
  qed (use gen_if.psimps [OF 21(1)] in simp_all)
next
  case (23 c cond body rest has_else end_label else_label s)
  note ih1 = 23(2) [OF refl refl prod.collapse refl refl refl]
  note ih2 = 23(3) [OF refl refl prod.collapse refl refl refl refl refl]
  show ?case
  proof (cases "rest \<noteq> [] \<or> has_else")
    case True
    then show ?thesis using ih1 ih2
      unfolding gen_elseifs.psimps(2) [OF 23(1)] by (simp add: Let_def split_beta)
  next
    case False
    then show ?thesis using ih1 ih2
      unfolding gen_elseifs.psimps(2) [OF 23(1)] by (simp add: Let_def split_beta)
  qed
next
  case (24 c stmt s)
  show ?case
  proof (cases stmt)
    case (WhileStmt cond body)
    note ih = 24(2) [OF WhileStmt refl prod.collapse refl prod.collapse refl refl refl refl refl]
    show ?thesis using ih
      unfolding gen_while.psimps [OF 24(1)] by (simp add: WhileStmt Let_def split_beta)
  qed (use gen_while.psimps [OF 24(1)] in simp_all)
next
  case (25 c stmt s)
  show ?case
  proof (cases stmt)
    case (LoopStmt body)
    note ih = 25(2) [OF LoopStmt refl prod.collapse refl prod.collapse refl refl refl]
    show ?thesis using ih
      unfolding gen_loop.psimps [OF 25(1)] by (simp add: LoopStmt Let_def split_beta)
  qed (use gen_loop.psimps [OF 25(1)] in simp_all)
next
  case (26 c stmt s)
  show ?case
  proof (cases stmt)
    case (CaseStmt e whens eb)
    note ih1 = 26(2) [OF CaseStmt refl prod.collapse refl refl]
    note ih2 = 26(3) [OF CaseStmt refl prod.collapse refl refl refl refl]
    show ?thesis
    proof (cases eb)
      case None
      then show ?thesis using ih1
        unfolding gen_case.psimps [OF 26(1)] by (simp add: CaseStmt Let_def split_beta)
    next
      case (Some b)
      then show ?thesis using ih1 ih2 [OF Some]
        unfolding gen_case.psimps [OF 26(1)] by (simp add: CaseStmt Let_def split_beta)
    qed
  qed (use gen_case.psimps [OF 26(1)] in simp_all)
next
  case (28 c vals body rest end_label s)
  note ih1 = 28(2) [OF refl prod.collapse refl refl]
  note ih2 = 28(3) [OF refl prod.collapse refl refl refl refl refl]
  show ?case using ih1 ih2
    unfolding gen_whens.psimps(2) [OF 28(1)] by (simp add: Let_def split_beta)
next
  case (30 c name ps rs body extern_name s)
  note ih1 = 30(2) [OF refl]
  show ?case
  proof (cases "nested_subs (gen_sub_epilogue c (Sub name ps rs (Some body) extern_name)
                   (gen_stmts c body (gen_sub_prologue c (Sub name ps rs (Some body) extern_name) s))) = []")
    case True
    then have "queue_size (gen_sub_epilogue c (Sub name ps rs (Some body) extern_name)
                   (gen_stmts c body (gen_sub_prologue c (Sub name ps rs (Some body) extern_name) s))) = 0"
      by (simp add: queue_size_def)
    then show ?thesis using True
      unfolding gen_sub.psimps(2) [OF 30(1)] by (simp add: Let_def)
  next
    case False
    note ih2 = 30(3) [OF refl refl refl False refl refl]
    show ?thesis using False ih2
      unfolding gen_sub.psimps(2) [OF 30(1)] by (simp add: Let_def)
  qed
qed (simp_all add: gen_stmt_psimps Let_def split_beta)


lemma pair_eq_iff: "((a, b) = p) = (a = fst p \<and> b = snd p)"
  by auto

termination gen_stmt
  apply (relation "measure (\<lambda>x. case x of
       Inl (Inl (Inl (c, st, s))) \<Rightarrow> 2 * (size st + queue_size s) + 1
     | Inl (Inl (Inr (c, sts, s))) \<Rightarrow> 2 * (size_list size sts + queue_size s)
     | Inl (Inr (Inl (c, st, s))) \<Rightarrow> 2 * (size st + queue_size s)
     | Inl (Inr (Inr (Inl (c, eifs, he, el, ll, s)))) \<Rightarrow>
         2 * (size_list (size_prod (\<lambda>x. 0) (size_list size)) eifs + queue_size s)
     | Inl (Inr (Inr (Inr (c, st, s)))) \<Rightarrow> 2 * (size st + queue_size s)
     | Inr (Inl (Inl (c, st, s))) \<Rightarrow> 2 * (size st + queue_size s)
     | Inr (Inl (Inr (c, st, s))) \<Rightarrow> 2 * (size st + queue_size s)
     | Inr (Inr (Inl (c, whens, el, s))) \<Rightarrow>
         2 * (size_list (size_prod (\<lambda>x. 0) (size_list size)) whens + queue_size s)
     | Inr (Inr (Inr (Inl (c, d, s)))) \<Rightarrow> 2 * (size d + queue_size s)
     | Inr (Inr (Inr (Inr (c, ds, s)))) \<Rightarrow> 2 * (size_list size ds + queue_size s))")
  apply (auto simp: split_beta pair_eq_iff queue_size_def [symmetric] dest!: queue_bound
              split: if_splits)
  done

declare gen_if.simps [simp del] gen_while.simps [simp del] gen_loop.simps [simp del]
  gen_case.simps [simp del]

lemmas gen_stmt_helper_simps = gen_if.simps gen_while.simps gen_loop.simps gen_case.simps

section \<open>The program\<close>

text \<open>The \<open>DS\<close> line of a variable: \<open>v_name:\tDS\tsize\<close>.\<close>

definition ds_line :: "string \<Rightarrow> variable \<Rightarrow> string" where
  "ds_line name var = mangle_name name @ '':'' @ TAB @ ''DS'' @ TAB @ str_int (var_size var)"

text \<open>The \<open>DB\<close> line of an interned string: its byte ordinals, then a terminating 0.\<close>

definition db_line :: "string \<Rightarrow> string \<Rightarrow> string" where
  "db_line v label =
     (let bytes_str = join_comma (map (\<lambda>ch. str_nat (of_char ch)) v)
      in if bytes_str \<noteq> [] then label @ '':'' @ TAB @ ''DB'' @ TAB @ bytes_str @ '',0''
         else label @ '':'' @ TAB @ ''DB'' @ TAB @ ''0'')"

text \<open>The first loop of \<open>gen_program\<close>: every top-level variable the current scope of the
  checker knows is allocated before any subroutine is lowered.\<close>

definition allocate_globals :: "checker \<Rightarrow> stmt list \<Rightarrow> generator \<Rightarrow> generator" where
  "allocate_globals c stmts s =
     foldl (\<lambda>s stmt.
        (case stmt of
           VarDecl name _ _ _ \<Rightarrow>
             (case lookup_var c name of
                Some typ \<Rightarrow> snd (allocate_var c name typ s)
              | None \<Rightarrow> s)
         | _ \<Rightarrow> s)) s stmts"

definition gen_declarations :: "checker \<Rightarrow> decl list \<Rightarrow> generator \<Rightarrow> generator" where
  "gen_declarations c decls s =
     foldl (\<lambda>s d. (case d of DeclSub sub \<Rightarrow> gen_sub c sub s | DeclOther \<Rightarrow> s)) s decls"

text \<open>The header that \<open>gen_program\<close> emits first.\<close>

definition header :: "string list" where
  "header = [''; Generated by ucow'', '''', ins0 ''.8080'', '''', ins0 ''CSEG'', '''',
             ins ''JMP'' ''_main'', '''',
             ins ''INCLUDE'' (QUOTE @ ''runtime.mac'' @ QUOTE), '''']"

text \<open>The data segment and the end of the listing, from the variables and string literals
  of the generator at that point.\<close>

definition gen_data_segment :: "generator \<Rightarrow> generator" where
  "gen_data_segment s =
     (let s = emit ''; Data segment'' s;
          s = emit_label ''_data'' s;
          s = foldl (\<lambda>s (name, var). emit (ds_line name var) s) s (variables s);
          s = foldl (\<lambda>s (v, label). emit (db_line v label) s) s (string_literals s)
      in emits ['''', ins0 ''END''] s)"

definition gen_program :: "checker \<Rightarrow> program \<Rightarrow> generator \<Rightarrow> generator" where
  "gen_program c p s =
     (let s = emits header s;
          s = allocate_globals c (statements p) s;
          s = gen_declarations c (declarations p) s;
          s = emits ['''', ''; Main program''] s;
          s = emit_label ''_main'' s;
          s = gen_stmts c (statements p) s;
          s = emits [ins ''JMP'' ''0'', ''''] s
      in gen_data_segment s)"

text \<open>\<open>'\n'.join(self.output)\<close>.\<close>

fun join_lines :: "string list \<Rightarrow> string" where
  "join_lines [] = []"
| "join_lines [x] = x"
| "join_lines (x # y # ys) = x @ [CHR 0x0A] @ join_lines (y # ys)"

text \<open>\<open>generate\<close>: a fresh generator, \<open>gen_program\<close>, and the listing as one string.\<close>

definition generate :: "checker \<Rightarrow> program \<Rightarrow> string" where
  "generate c p = join_lines (output_lines (gen_program c p init_generator))"

section \<open>Well-formed statements and the invariant of statement lowering\<close>

text \<open>\<open>stmt_ok U N c st\<close>: the lines that \<open>st\<close> takes from the user (inline assembly, the
  labels of subroutines) satisfy \<open>U\<close>, and the parameters and returns of its subroutines
  satisfy \<open>N\<close>.\<close>

fun stmt_ok :: "(string \<Rightarrow> bool) \<Rightarrow> (string \<Rightarrow> bool) \<Rightarrow> checker \<Rightarrow> stmt \<Rightarrow> bool"
and sub_ok :: "(string \<Rightarrow> bool) \<Rightarrow> (string \<Rightarrow> bool) \<Rightarrow> checker \<Rightarrow> sub_decl \<Rightarrow> bool"
where
  "stmt_ok U N c (IfStmt cond then_body elseifs else_body) =
     (list_all (\<lambda>x. stmt_ok U N c x) then_body \<and>
      list_all (\<lambda>(e, b). list_all (\<lambda>x. stmt_ok U N c x) b) elseifs \<and>
      (case else_body of None \<Rightarrow> True | Some b \<Rightarrow> list_all (\<lambda>x. stmt_ok U N c x) b))"
| "stmt_ok U N c (WhileStmt cond body) = list_all (\<lambda>x. stmt_ok U N c x) body"
| "stmt_ok U N c (LoopStmt body) = list_all (\<lambda>x. stmt_ok U N c x) body"
| "stmt_ok U N c (CaseStmt e whens else_body) =
     (list_all (\<lambda>(vs, b). list_all (\<lambda>x. stmt_ok U N c x) b) whens \<and>
      (case else_body of None \<Rightarrow> True | Some b \<Rightarrow> list_all (\<lambda>x. stmt_ok U N c x) b))"
| "stmt_ok U N c (AsmStmt parts) = U (TAB @ asm_join (map (asm_part_text c) parts))"
| "stmt_ok U N c (NestedSubStmt sub) = sub_ok U N c sub"
| "stmt_ok U N c (SubDecl decl) = sub_ok U N c decl"
| "stmt_ok U N c _ = True"
| "sub_ok U N c (Sub name ps rs None extern_name) = True"
| "sub_ok U N c (Sub name ps rs (Some body) extern_name) =
     (sub_head_ok U N c (Sub name ps rs (Some body) extern_name) \<and>
      list_all (\<lambda>x. stmt_ok U N c x) body)"

inductive steps :: "(string \<Rightarrow> bool) \<Rightarrow> (string \<Rightarrow> bool) \<Rightarrow> checker \<Rightarrow> generator \<Rightarrow> generator \<Rightarrow> bool"
  for U :: "string \<Rightarrow> bool" and N :: "string \<Rightarrow> bool" and c :: checker
where
  lower: "esteps U N c s s' \<Longrightarrow> steps U N c s s'"
| labels: "steps U N c s s' \<Longrightarrow> steps U N c s (s'\<lparr>break_labels := b\<rparr>)"
| labels': "steps U N c s s' \<Longrightarrow> steps U N c s (s'\<lparr>continue_labels := b\<rparr>)"
| queue: "steps U N c s s' \<Longrightarrow> steps U N c s (s'\<lparr>nested_subs := q\<rparr>)"
| more: "steps U N c s s' \<Longrightarrow> esteps U N c s' s'' \<Longrightarrow> steps U N c s s''"

definition gen_inv :: "(string \<Rightarrow> bool) \<Rightarrow> (string \<Rightarrow> bool) \<Rightarrow> checker \<Rightarrow> generator \<Rightarrow> generator \<Rightarrow> bool" where
  "gen_inv U N c s0 s \<longleftrightarrow> steps U N c s0 s \<and> list_all (sub_ok U N c) (nested_subs s)"

lemma inv_esteps: "gen_inv U N c s0 s \<Longrightarrow> esteps U N c s s' \<Longrightarrow> gen_inv U N c s0 s'"
  by (auto simp: gen_inv_def esteps_nested_subs intro: steps.more)

lemma inv_prims [simp]:
  "gen_inv U N c s0 s \<Longrightarrow> gen_line U l \<Longrightarrow> gen_inv U N c s0 (emit l s)"
  "gen_inv U N c s0 s \<Longrightarrow> gen_line U (l @ '':'') \<Longrightarrow> gen_inv U N c s0 (emit_label l s)"
  "gen_inv U N c s0 s \<Longrightarrow> p \<in> set label_prefixes \<Longrightarrow> gen_inv U N c s0 (snd (new_label p s))"
  "gen_inv U N c s0 s \<Longrightarrow> gen_inv U N c s0 (snd (get_string_label v s))"
  "gen_inv U N c s0 s \<Longrightarrow> gen_inv U N c s0 (s\<lparr>break_labels := b\<rparr>)"
  "gen_inv U N c s0 s \<Longrightarrow> gen_inv U N c s0 (s\<lparr>continue_labels := b\<rparr>)"
  "gen_inv U N c s0 s \<Longrightarrow> gen_inv U N c s0 (s\<lparr>current_sub := x\<rparr>)"
  "gen_inv U N c s0 s \<Longrightarrow> list_all (sub_ok U N c) q \<Longrightarrow> gen_inv U N c s0 (s\<lparr>nested_subs := q\<rparr>)"
proof -
  assume a: "gen_inv U N c s0 s"
  have b: "esteps U N c s s" by (rule esteps.base)
  show "gen_line U l \<Longrightarrow> gen_inv U N c s0 (emit l s)"
    using inv_esteps [OF a esteps.emit [OF b]] .
  show "gen_line U (l @ '':'') \<Longrightarrow> gen_inv U N c s0 (emit_label l s)"
    using inv_esteps [OF a esteps_emit_label [OF b]] .
  show "p \<in> set label_prefixes \<Longrightarrow> gen_inv U N c s0 (snd (new_label p s))"
    using inv_esteps [OF a esteps.label [OF b]] .
  show "gen_inv U N c s0 (snd (get_string_label v s))"
    using inv_esteps [OF a esteps.intern [OF b]] .
  show "gen_inv U N c s0 (s\<lparr>break_labels := b\<rparr>)" for b
    using a by (auto simp: gen_inv_def intro: steps.labels)
  show "gen_inv U N c s0 (s\<lparr>continue_labels := b\<rparr>)" for b
    using a by (auto simp: gen_inv_def intro: steps.labels')
  show "gen_inv U N c s0 (s\<lparr>current_sub := x\<rparr>)"
    using inv_esteps [OF a esteps.sub [OF b]] .
  show "list_all (sub_ok U N c) q \<Longrightarrow> gen_inv U N c s0 (s\<lparr>nested_subs := q\<rparr>)"
    using a by (auto simp: gen_inv_def intro: steps.queue)
qed

lemma inv_emits [simp]:
  "gen_inv U N c s0 s \<Longrightarrow> list_all (gen_line U) ls \<Longrightarrow> gen_inv U N c s0 (emits ls s)"
  by (induction ls arbitrary: s) auto

lemma inv_lowerings [simp]:
  "gen_inv U N c s0 s \<Longrightarrow> gen_inv U N c s0 (gen_expr c e t s)"
  "gen_inv U N c s0 s \<Longrightarrow> gen_inv U N c s0 (gen_var_decl c st s)"
  "gen_inv U N c s0 s \<Longrightarrow> gen_inv U N c s0 (gen_assignment c st s)"
  "gen_inv U N c s0 s \<Longrightarrow> gen_inv U N c s0 (gen_multi_assignment c st s)"
  "gen_inv U N c s0 s \<Longrightarrow> gen_inv U N c s0 (gen_case_values c vals next_when s)"
  "gen_inv U N c s0 s \<Longrightarrow> gen_inv U N c s0 (gen_sub_epilogue c decl s)"
  "gen_inv U N c s0 s \<Longrightarrow> sub_head_ok U N c decl \<Longrightarrow> gen_inv U N c s0 (gen_sub_prologue c decl s)"
  "gen_inv U N c s0 s \<Longrightarrow> U (TAB @ asm_join (map (asm_part_text c) parts))
     \<Longrightarrow> gen_inv U N c s0 (gen_asm c (AsmStmt parts) s)"
proof -
  assume a: "gen_inv U N c s0 s"
  have b: "esteps U N c s s" by (rule esteps.base)
  show "gen_inv U N c s0 (gen_expr c e t s)"
    using inv_esteps [OF a gen_expr_esteps(1) [OF b]] .
  show "gen_inv U N c s0 (gen_var_decl c st s)"
    using inv_esteps [OF a gen_var_decl_esteps [OF b]] .
  show "gen_inv U N c s0 (gen_assignment c st s)"
    using inv_esteps [OF a gen_assignment_esteps [OF b]] .
  show "gen_inv U N c s0 (gen_multi_assignment c st s)"
    using inv_esteps [OF a gen_multi_assignment_esteps [OF b]] .
  show "gen_inv U N c s0 (gen_case_values c vals next_when s)"
    using inv_esteps [OF a gen_case_values_esteps [OF b]] .
  show "gen_inv U N c s0 (gen_sub_epilogue c decl s)"
    using inv_esteps [OF a gen_sub_epilogue_esteps [OF b]] .
  show "sub_head_ok U N c decl \<Longrightarrow> gen_inv U N c s0 (gen_sub_prologue c decl s)"
    using inv_esteps [OF a gen_sub_prologue_esteps [OF b]] .
  show "U (TAB @ asm_join (map (asm_part_text c) parts))
     \<Longrightarrow> gen_inv U N c s0 (gen_asm c (AsmStmt parts) s)"
    using inv_esteps [OF a gen_asm_esteps [OF b]] .
qed



section \<open>What the invariant gives\<close>

text \<open>The output only grows, by lines of the shapes in \<open>gen_line\<close>; the label counter never
  decreases; an interned string keeps its label; the keys of both tables stay distinct; a
  variable whose name no subroutine may re-allocate keeps its entry.\<close>

lemma esteps_output:
  "esteps U N c s s' \<Longrightarrow> \<exists>ls. output_lines s' = output_lines s @ ls \<and> list_all (gen_line U) ls"
proof (induction rule: esteps.induct)
  case (emit s s' l)
  then obtain ls where "output_lines s' = output_lines s @ ls" "list_all (gen_line U) ls" by blast
  then have "output_lines (emit l s') = output_lines s @ (ls @ [l]) \<and> list_all (gen_line U) (ls @ [l])"
    using emit by (simp add: emit_def)
  then show ?case by blast
qed (auto simp: new_label_def get_string_label_def allocate_var_def Let_def split_beta split: option.splits)


lemma esteps_counter: "esteps U N c s s' \<Longrightarrow> label_counter s \<le> label_counter s'"
  by (induction rule: esteps.induct)
     (auto simp: emit_def new_label_def get_string_label_def allocate_var_def Let_def split_beta split: option.splits)

lemma steps_counter: "steps U N c s s' \<Longrightarrow> label_counter s \<le> label_counter s'"
  by (induction rule: steps.induct) (auto dest: esteps_counter)

lemma esteps_strings:
  "esteps U N c s s' \<Longrightarrow> map_of (string_literals s) v = Some l \<Longrightarrow> map_of (string_literals s') v = Some l"
  by (induction rule: esteps.induct)
     (auto simp: emit_def new_label_def get_string_label_def allocate_var_def Let_def split_beta update_conv' split: option.splits)

lemma steps_strings:
  "steps U N c s s' \<Longrightarrow> map_of (string_literals s) v = Some l \<Longrightarrow> map_of (string_literals s') v = Some l"
  by (induction rule: steps.induct) (auto dest: esteps_strings)

lemma esteps_strings_distinct:
  "esteps U N c s s' \<Longrightarrow> distinct (map fst (string_literals s)) \<Longrightarrow> distinct (map fst (string_literals s'))"
  by (induction rule: esteps.induct)
     (auto simp: emit_def new_label_def get_string_label_def allocate_var_def Let_def split_beta distinct_update split: option.splits)

lemma steps_strings_distinct:
  "steps U N c s s' \<Longrightarrow> distinct (map fst (string_literals s)) \<Longrightarrow> distinct (map fst (string_literals s'))"
  by (induction rule: steps.induct) (auto dest: esteps_strings_distinct)

lemma esteps_vars_distinct:
  "esteps U N c s s' \<Longrightarrow> distinct (map fst (variables s)) \<Longrightarrow> distinct (map fst (variables s'))"
  by (induction rule: esteps.induct)
     (auto simp: emit_def new_label_def get_string_label_def allocate_var_def Let_def split_beta distinct_update split: option.splits)

lemma steps_vars_distinct:
  "steps U N c s s' \<Longrightarrow> distinct (map fst (variables s)) \<Longrightarrow> distinct (map fst (variables s'))"
  by (induction rule: steps.induct) (auto dest: esteps_vars_distinct)

lemma esteps_vars_keep:
  "esteps U N c s s' \<Longrightarrow> \<not> N n \<Longrightarrow> map_of (variables s) n = Some v \<Longrightarrow> map_of (variables s') n = Some v"
  by (induction rule: esteps.induct)
     (auto simp: emit_def new_label_def get_string_label_def allocate_var_def Let_def split_beta update_conv' split: option.splits)

lemma steps_vars_keep:
  "steps U N c s s' \<Longrightarrow> \<not> N n \<Longrightarrow> map_of (variables s) n = Some v \<Longrightarrow> map_of (variables s') n = Some v"
  by (induction rule: steps.induct) (auto dest: esteps_vars_keep)

lemma foldl_emit_pairs:
  "foldl (\<lambda>s (a, b). emit (f a b) s) s xs = s\<lparr>output_lines := output_lines s @ map (\<lambda>(a, b). f a b) xs\<rparr>"
  by (induction xs arbitrary: s) (auto simp: emit_def)


lemma gen_data_segment_tables:
  "variables (gen_data_segment s) = variables s"
  "string_literals (gen_data_segment s) = string_literals s"
  "label_counter (gen_data_segment s) = label_counter s"
  unfolding gen_data_segment_def foldl_emit_pairs by (simp_all add: Let_def emit_def emit_label_def)




lemma allocate_globals_Nil: "allocate_globals c [] s = s"
  by (simp add: allocate_globals_def)

lemma allocate_globals_snoc:
  "allocate_globals c (xs @ [x]) s =
     (case x of
        VarDecl name _ _ _ \<Rightarrow>
          (case lookup_var c name of
             Some typ \<Rightarrow> snd (allocate_var c name typ (allocate_globals c xs s))
           | None \<Rightarrow> allocate_globals c xs s)
      | _ \<Rightarrow> allocate_globals c xs s)"
  by (cases x) (simp_all add: allocate_globals_def split: option.splits)


lemma allocate_globals_distinct:
  "distinct (map fst (variables s)) \<Longrightarrow> distinct (map fst (variables (allocate_globals c xs s)))"
  by (induction xs rule: rev_induct)
     (simp_all add: allocate_globals_Nil allocate_globals_snoc allocate_var_def Let_def distinct_update
        split: stmt.splits option.splits)

lemma allocate_globals_entry:
  assumes "VarDecl v tn init rt \<in> set xs" and "lookup_var c v = Some t"
  shows "\<exists>var. map_of (variables (allocate_globals c xs s)) v = Some var \<and>
               var_size var = type_size c t \<and> var_type var = t"
  using assms(1)
proof (induction xs rule: rev_induct)
  case Nil
  then show ?case by simp
next
  case (snoc x xs)
  show ?case
  proof (cases "x = VarDecl v tn init rt")
    case True
    then show ?thesis using assms(2)
      by (simp add: allocate_globals_snoc allocate_var_def Let_def update_conv')
  next
    case False
    then have "\<exists>var. map_of (variables (allocate_globals c xs s)) v = Some var \<and>
               var_size var = type_size c t \<and> var_type var = t"
      using snoc by simp
    then show ?thesis using assms(2)
      by (auto simp: allocate_globals_snoc allocate_var_def Let_def update_conv'
            split: stmt.splits option.splits)
  qed
qed




lemma esteps_trans: "esteps U N c s' s'' \<Longrightarrow> esteps U N c s s' \<Longrightarrow> esteps U N c s s''"
  by (induction rule: esteps.induct) (auto intro: esteps.intros)


lemma stmt_ok_trivial:
  "stmt_ok (\<lambda>l. True) (\<lambda>n. True) c st"
  "sub_ok (\<lambda>l. True) (\<lambda>n. True) c d"
  by (induction "\<lambda>l::string. True" "\<lambda>n::string. True" c st and "\<lambda>l::string. True" "\<lambda>n::string. True" c d rule: stmt_ok_sub_ok.induct)
     (auto simp: sub_head_ok_def list_all_iff split: option.splits)







section \<open>Address-of on an unsupported operand\<close>

text \<open>The operands of \<open>&\<close> that \<open>gen_expr\<close> has no branch for.\<close>

definition unsupported_address_target :: "expr \<Rightarrow> bool" where
  "unsupported_address_target operand =
     (case operand of
        Identifier _ _ \<Rightarrow> False
      | FieldAccess _ _ _ \<Rightarrow> False
      | ArrayAccess _ _ _ \<Rightarrow> False
      | _ \<Rightarrow> True)"

text \<open>
  C3, as stated, asks for a code-generation error when \<open>&\<close> is applied to anything but an
  identifier, a field access or an array access. The source has no error class and no
  \<open>raise\<close>: on \<open>&5\<close> the generator returns normally with the generator unchanged, so
  nothing is emitted and nothing is reported.
\<close>

theorem address_of_literal_counterexample:
  "gen_expr sample_checker (AddressOf (NumberLiteral 5 None) None) HL init_generator
     = init_generator"
  by (simp add: gen_expr_eval)

text \<open>
  C3, amended: when \<open>&\<close> is applied to an operand that is not an identifier, a field
  access or an array access, the generator emits no instruction and changes no state; it
  goes on silently.
\<close>

theorem address_of_unsupported_is_silent:
  "unsupported_address_target operand \<Longrightarrow> gen_expr c (AddressOf operand rt) target s = s"
  by (cases operand) (simp_all add: unsupported_address_target_def gen_expr_eval)

theorem address_of_unsupported_is_silent_witness:
  "unsupported_address_target (Call (Identifier ''f'' None) [] None) \<and>
   gen_expr sample_checker (AddressOf (Call (Identifier ''f'' None) [] None) None) A init_generator
     = init_generator"
proof -
  have h: "unsupported_address_target (Call (Identifier ''f'' None) [] None)"
    by (simp add: unsupported_address_target_def)
  show ?thesis
    using h address_of_unsupported_is_silent [OF h, of sample_checker None A init_generator]
    by (simp add: gen_expr_eval)
qed

section \<open>The order of the arguments of a call\<close>

text \<open>The reading of the argument loop of \<open>gen_call\<close> that is compared with the source: the
  arguments from the last to the first, each evaluated into \<open>HL\<close> and pushed at once.\<close>

fun eval_push_from_last :: "checker \<Rightarrow> expr list \<Rightarrow> generator \<Rightarrow> generator" where
  "eval_push_from_last c [] s = s"
| "eval_push_from_last c (a # as) s =
     emit (ins ''PUSH'' ''H'') (gen_expr c a HL (eval_push_from_last c as s))"

lemma arg_loop_from_last:
  "foldl (\<lambda>s arg. emit (ins ''PUSH'' ''H'') (gen_expr c arg HL s)) s (rev args)
     = eval_push_from_last c args s"
  by (induction args) simp_all

text \<open>
  C1, as stated, has the arguments evaluated in source order and only pushed in reverse
  order. The loop of \<open>gen_call\<close> runs over \<open>reversed(expr.args)\<close> and evaluates and pushes in
  the same iteration: in \<open>f(1, 2)\<close> the code of the second argument comes first.
\<close>

theorem call_args_counterexample:
  "output_lines (gen_expr sample_checker
      (Call (Identifier ''f'' None) [NumberLiteral 1 None, NumberLiteral 2 None] None) HL
      init_generator)
   = [ins ''LXI'' ''H,2'', ins ''PUSH'' ''H'', ins ''LXI'' ''H,1'', ins ''PUSH'' ''H'',
      ins ''CALL'' ''f'', ins ''POP'' ''D'', ins ''POP'' ''D'']"
  by (simp add: gen_expr_eval sample_checker_def init_generator_def emit_def mangle_sub_name_def
        upper_def upper_char_def str_int_def)

text \<open>
  C1, amended: for every call expression the generator evaluates the arguments from the last
  to the first, and pushes each one right after its evaluation; the listing of the call
  starts with this code, so the code of an argument with a higher index stands before the
  code of one with a lower index.
\<close>

theorem call_args_from_last:
  "\<exists>rest. output_lines (gen_expr c (Call tgt args rt) target s)
            = output_lines (eval_push_from_last c args s) @ rest"
proof -
  let ?s1 = "eval_push_from_last c args s"
  have "esteps (\<lambda>l. True) (\<lambda>n. True) c ?s1 (gen_expr c (Call tgt args rt) target s)"
    by (simp add: esteps.base gen_expr.simps gen_call.simps arg_loop_from_last Let_def split: option.splits)
  from esteps_output [OF this] show ?thesis by blast
qed

section \<open>The return statement\<close>

text \<open>A subroutine \<open>g\<close> with one return value \<open>r\<close>, whose body assigns \<open>r\<close> and returns
  explicitly.\<close>

definition returning_sub :: sub_decl where
  "returning_sub =
     Sub ''g'' [] [\<lparr>param_name = ''r'', param_type = ''uint16''\<rparr>]
       (Some [Assignment (Identifier ''r'' (Some UINT16)) (NumberLiteral 5 (Some UINT16)),
              ReturnStmt]) None"

text \<open>
  C2 asks that a return statement in a subroutine with a declared return value loads the
  first return slot into \<open>HL\<close> before \<open>RET\<close>. In the source the branch of \<open>gen_stmt\<close> for
  a return statement emits \<open>RET\<close> and nothing else, whatever the enclosing subroutine
  declares; only the end of \<open>gen_sub\<close> loads the slot. In the listing of \<open>g\<close> the first
  \<open>RET\<close>, that of the return statement, follows the store to \<open>v_r\<close> with no load.
\<close>

theorem return_stmt_emits_only_ret:
  "output_lines (gen_stmt c ReturnStmt s) = output_lines s @ [ins0 ''RET''] \<and>
   output_lines (gen_sub sample_checker returning_sub init_generator)
     = ['''', sub_comment ''g'', ''g:'', ins ''LXI'' ''H,5'', ins ''SHLD'' ''v_r'',
        ins0 ''RET'', ins ''LHLD'' ''v_r'', ins0 ''RET'']"
  by (simp add: returning_sub_def gen_sub_prologue_def gen_sub_epilogue_def sub_signature_def
        gen_assignment_def store_at_width_def
        gen_expr_eval sample_checker_def init_generator_def emit_def emit_label_def
        allocate_var_def mangle_sub_name_def mangle_name_def UINT16_def
        upper_def upper_char_def str_int_def Let_def)

section \<open>The layout of the listing\<close>










section \<open>Break and continue outside a loop\<close>

text \<open>
  C9: a break statement lowered while the stack of break labels is empty, and a continue
  statement lowered while the stack of continue labels is empty, leave the generator as it
  is: nothing is emitted, and the lowering returns normally.
\<close>

theorem break_continue_outside_loop:
  "(break_labels s = [] \<longrightarrow> gen_stmt c BreakStmt s = s) \<and>
   (continue_labels s = [] \<longrightarrow> gen_stmt c ContinueStmt s = s)"
  by simp

theorem break_continue_outside_loop_witness:
  "break_labels init_generator = [] \<and> continue_labels init_generator = [] \<and>
   gen_stmt sample_checker BreakStmt init_generator = init_generator \<and>
   gen_stmt sample_checker ContinueStmt init_generator = init_generator"
  using break_continue_outside_loop [of init_generator sample_checker]
  by (simp add: init_generator_def)

end
